theory Spec2Isabelle
  imports Complex_Main "HOL-Library.Word"
begin

section \<open>Values, types and type sets\<close>

text \<open>
  The embedding follows \<^verbatim>\<open>js/src/jit/MCallOptimize.cpp\<close>: every specializer is a function
  from the read-only compilation context, the call descriptor and the builder state to an
  inlining status and the new builder state.
\<close>

datatype MIRType =
    MIRType_Undefined | MIRType_Null | MIRType_Boolean | MIRType_Int32 | MIRType_Double
  | MIRType_Float32 | MIRType_String | MIRType_Symbol | MIRType_Object | MIRType_Value
  | MIRType_None | MIRType_Elements

definition IsFloatingPointType :: "MIRType \<Rightarrow> bool" where
  "IsFloatingPointType t = (t = MIRType_Double \<or> t = MIRType_Float32)"

definition IsNumberType :: "MIRType \<Rightarrow> bool" where
  "IsNumberType t = (t = MIRType_Int32 \<or> t = MIRType_Double \<or> t = MIRType_Float32)"

text \<open>
  A C++ \<^verbatim>\<open>double\<close> as far as the specializers look at it: they only compare constants.
  Every finite double is a rational; comparisons with NaN are false.
\<close>

datatype jsdouble = Finite rat | PosInf | NegInf | NaN

fun double_eq :: "jsdouble \<Rightarrow> jsdouble \<Rightarrow> bool" where
  "double_eq (Finite a) (Finite b) = (a = b)"
| "double_eq PosInf PosInf = True"
| "double_eq NegInf NegInf = True"
| "double_eq _ _ = False"

fun double_ge :: "jsdouble \<Rightarrow> jsdouble \<Rightarrow> bool" where
  "double_ge NaN _ = False"
| "double_ge _ NaN = False"
| "double_ge PosInf _ = True"
| "double_ge _ NegInf = True"
| "double_ge (Finite a) (Finite b) = (a \<ge> b)"
| "double_ge _ _ = False"

fun double_le :: "jsdouble \<Rightarrow> jsdouble \<Rightarrow> bool" where
  "double_le a b = double_ge b a"

definition INT32_MAX :: jsdouble where
  "INT32_MAX = Finite 2147483647"

definition INT32_MIN :: jsdouble where
  "INT32_MIN = Finite (- 2147483648)"

text \<open>A string: its UTF-16 code units, and whether it is linear (flat) or a rope.\<close>

record JSString =
  chars :: "16 word list"
  isLinear :: bool

datatype Value =
    UndefinedValue | NullValue | BooleanValue bool | Int32Value "32 word"
  | DoubleValue jsdouble | StringValue JSString | ObjectValue nat

fun isNumber :: "Value \<Rightarrow> bool" where
  "isNumber (Int32Value _) = True"
| "isNumber (DoubleValue _) = True"
| "isNumber _ = False"

datatype Class =
    ArrayObject_class | RegExpObject_class
  | OutlineTransparentTypedObject_class | OutlineOpaqueTypedObject_class
  | InlineTransparentTypedObject_class | InlineOpaqueTypedObject_class
  | ScalarTypeDescr_class | ReferenceTypeDescr_class
  | SizedArrayTypeDescr_class | UnsizedArrayTypeDescr_class
  | OtherClass nat

datatype Scalar_Type =
    Scalar_Int8 | Scalar_Uint8 | Scalar_Int16 | Scalar_Uint16 | Scalar_Int32 | Scalar_Uint32
  | Scalar_Float32 | Scalar_Float64 | Scalar_Uint8Clamped | Scalar_TypeMax

datatype TypeObjectFlag =
    OBJECT_FLAG_SPARSE_INDEXES | OBJECT_FLAG_LENGTH_OVERFLOW | OBJECT_FLAG_ITERATED
  | OBJECT_FLAG_NON_PACKED

datatype DoubleConversion =
    DontConvertToDoubles | MaybeConvertToDoubles | AlwaysConvertToDoubles
  | AmbiguousDoubleConversion

text \<open>The types of type inference; an object type is named by the number of its key.\<close>

datatype Type =
    UndefinedType | NullType | BooleanType | Int32Type | DoubleType | StringType
  | SymbolType | AnyObjectType | ObjectType nat

text \<open>
  A \<^verbatim>\<open>TypeObjectKey\<close>: a type object, or a singleton object. \<^verbatim>\<open>voidProperty\<close> is the type
  set of its \<^verbatim>\<open>JSID_VOID\<close> property, the types of its elements.
\<close>

record TypeObjectKey =
  key_id :: nat
  isSingleObject :: bool
  unknownProperties :: bool
  voidProperty :: "Type list"

text \<open>
  A \<^verbatim>\<open>TemporaryTypeSet\<close>, as the answers of the queries the specializers make to it
  (the type-inference system itself is outside this file).
\<close>

record TemporaryTypeSet =
  getKnownMIRType :: MIRType
  getKnownClass :: "Class option"
  getSharedTypedArrayType :: Scalar_Type
  objectFlags :: "TypeObjectFlag list"
  objects :: "TypeObjectKey option list"
  typeList :: "Type list"
  convertDoubleElements :: DoubleConversion

definition hasObjectFlags :: "TemporaryTypeSet \<Rightarrow> TypeObjectFlag list \<Rightarrow> bool" where
  "hasObjectFlags ts flags = (\<exists>f \<in> set flags. f \<in> set (objectFlags ts))"

definition hasType :: "TemporaryTypeSet \<Rightarrow> Type \<Rightarrow> bool" where
  "hasType ts t = (t \<in> set (typeList ts))"

definition getObjectCount :: "TemporaryTypeSet \<Rightarrow> nat" where
  "getObjectCount ts = length (objects ts)"

definition getObject :: "TemporaryTypeSet \<Rightarrow> nat \<Rightarrow> TypeObjectKey option" where
  "getObject ts i = (if i < length (objects ts) then objects ts ! i else None)"

definition getTypeObject :: "TemporaryTypeSet \<Rightarrow> nat \<Rightarrow> TypeObjectKey option" where
  "getTypeObject ts i =
     (case getObject ts i of
        None \<Rightarrow> None
      | Some k \<Rightarrow> if isSingleObject k then None else Some k)"

section \<open>The instruction graph\<close>

datatype TruncateKind = NoTruncate | IndirectTruncate

datatype MemoryBarrierRequirement = DoesNotRequireMemoryBarrier | DoesRequireMemoryBarrier

datatype AtomicOp =
    AtomicFetchAddOp | AtomicFetchSubOp | AtomicFetchAndOp | AtomicFetchOrOp | AtomicFetchXorOp

text \<open>
  A definition of the MIR graph, as a term over its operands. \<^verbatim>\<open>MDef\<close> is a definition that
  exists before the call is specialized (an argument, the receiver, the callee): its number,
  its type and its result type set (absent when \<^verbatim>\<open>resultTypeSet()\<close> is null). The other
  constructors are the instructions the specializers create, with the arguments of
  \<^verbatim>\<open>New\<close> in the source's order.
\<close>

datatype MDefinition =
    MDef nat MIRType "TemporaryTypeSet option"
  | MConstant Value
  | MArrayJoin MDefinition MDefinition
  | MArraySplice MDefinition MDefinition MDefinition
  | MArrayConcat MDefinition MDefinition nat
  | MPowHalf MDefinition
  | MDiv MDefinition MDefinition MIRType
  | MMul MDefinition MDefinition MIRType
  | MPow MDefinition MDefinition MIRType
  | MToInt32 MDefinition
  | MToDouble MDefinition
  | MLimitedTruncate MDefinition TruncateKind
  | MMinMax MDefinition MDefinition MIRType bool
  | MStringLength MDefinition
  | MBoundsCheck MDefinition MDefinition
  | MCharCodeAt MDefinition MDefinition
  | MHasClass MDefinition "Class option"
  | MBitOr MDefinition MDefinition
  | MNot MDefinition
  | MTruncateToInt32 MDefinition
  | MTypedArrayLength MDefinition
  | MTypedArrayElements MDefinition
  | MCompareExchangeTypedArrayElement MDefinition MDefinition Scalar_Type MDefinition
      MDefinition MIRType
  | MLoadTypedArrayElement MDefinition MDefinition Scalar_Type MemoryBarrierRequirement MIRType
  | MStoreTypedArrayElement MDefinition MDefinition MDefinition Scalar_Type
      MemoryBarrierRequirement
  | MAtomicTypedArrayElementBinop AtomicOp MDefinition MDefinition Scalar_Type MDefinition
      MIRType
  | MStoreElement MDefinition MDefinition MDefinition

text \<open>
  Modelled from the spec: \<^verbatim>\<open>MIR.h\<close> is not among the sources. A value handle "carries a
  statically-known primitive type tag": a constant has the type of its value, an instruction
  created with an explicit type argument (or whose result type the specializer sets) has that
  type, and the remaining instructions have the result type their constructor fixes
  (\<^verbatim>\<open>MIRType_None\<close> for an instruction without a result).
\<close>

fun value_type :: "Value \<Rightarrow> MIRType" where
  "value_type UndefinedValue = MIRType_Undefined"
| "value_type NullValue = MIRType_Null"
| "value_type (BooleanValue _) = MIRType_Boolean"
| "value_type (Int32Value _) = MIRType_Int32"
| "value_type (DoubleValue _) = MIRType_Double"
| "value_type (StringValue _) = MIRType_String"
| "value_type (ObjectValue _) = MIRType_Object"

fun def_type :: "MDefinition \<Rightarrow> MIRType" where
  "def_type (MDef _ t _) = t"
| "def_type (MConstant v) = value_type v"
| "def_type (MArrayJoin _ _) = MIRType_String"
| "def_type (MArraySplice _ _ _) = MIRType_None"
| "def_type (MArrayConcat _ _ _) = MIRType_Object"
| "def_type (MPowHalf _) = MIRType_Double"
| "def_type (MDiv _ _ t) = t"
| "def_type (MMul _ _ t) = t"
| "def_type (MPow _ _ _) = MIRType_Double"
| "def_type (MToInt32 _) = MIRType_Int32"
| "def_type (MToDouble _) = MIRType_Double"
| "def_type (MLimitedTruncate d _) = MIRType_Int32"
| "def_type (MMinMax _ _ t _) = t"
| "def_type (MStringLength _) = MIRType_Int32"
| "def_type (MBoundsCheck _ _) = MIRType_Int32"
| "def_type (MCharCodeAt _ _) = MIRType_Int32"
| "def_type (MHasClass _ _) = MIRType_Boolean"
| "def_type (MBitOr _ _) = MIRType_Int32"
| "def_type (MNot _) = MIRType_Boolean"
| "def_type (MTruncateToInt32 _) = MIRType_Int32"
| "def_type (MTypedArrayLength _) = MIRType_Int32"
| "def_type (MTypedArrayElements _) = MIRType_Elements"
| "def_type (MCompareExchangeTypedArrayElement _ _ _ _ _ t) = t"
| "def_type (MLoadTypedArrayElement _ _ _ _ t) = t"
| "def_type (MStoreTypedArrayElement _ _ _ _ _) = MIRType_None"
| "def_type (MAtomicTypedArrayElementBinop _ _ _ _ _ t) = t"
| "def_type (MStoreElement _ _ _) = MIRType_None"

fun resultTypeSet :: "MDefinition \<Rightarrow> TemporaryTypeSet option" where
  "resultTypeSet (MDef _ _ ts) = ts"
| "resultTypeSet _ = None"

fun isConstant :: "MDefinition \<Rightarrow> bool" where
  "isConstant (MConstant _) = True"
| "isConstant _ = False"

text \<open>
  The natives whose specializers are embedded below; the dispatch of the remaining natives of
  \<^verbatim>\<open>inlineNativeCall\<close> is not part of this development.
\<close>

datatype JSNative =
    atomics_compareExchange | atomics_load | atomics_store
  | atomics_add | atomics_sub | atomics_and | atomics_or | atomics_xor
  | array_concat | array_join | array_splice
  | math_max | math_min | math_pow
  | js_str_charCodeAt
  | intrinsic_UnsafePutElements
  | intrinsic_ObjectIsTypedObject | intrinsic_ObjectIsTransparentTypedObject
  | intrinsic_ObjectIsOpaqueTypedObject | intrinsic_TypeDescrIsSimpleType
  | intrinsic_TypeDescrIsArrayType | intrinsic_TypeDescrIsSizedArrayType
  | intrinsic_TypeDescrIsUnsizedArrayType

text \<open>A template object: its number and the key number of its type object.\<close>

record TemplateObject =
  template_id :: nat
  template_type :: nat

record CallInfo =
  funArg :: MDefinition
  thisArg :: MDefinition
  args :: "MDefinition list"
  constructing :: bool

definition argc :: "CallInfo \<Rightarrow> nat" where
  "argc callInfo = length (args callInfo)"

text \<open>
  \<^verbatim>\<open>getArg(i)\<close>; the source asserts \<^verbatim>\<open>i < argc()\<close>, and every use below is behind a check
  of \<^verbatim>\<open>argc()\<close>.
\<close>

definition getArg :: "CallInfo \<Rightarrow> nat \<Rightarrow> MDefinition" where
  "getArg callInfo i = args callInfo ! i"

text \<open>
  The builder state a specializer changes: the instructions of the current block in order,
  the value stack of the block (top first), the definitions flagged implicitly used, and the
  order in which instructions were added and values pushed.
\<close>

datatype Event = Added MDefinition | Pushed MDefinition

record IonBuilder =
  instructions :: "MDefinition list"
  stack :: "MDefinition list"
  implicitlyUsed :: "MDefinition set"
  events :: "Event list"

definition current_add :: "MDefinition \<Rightarrow> IonBuilder \<Rightarrow> IonBuilder" where
  "current_add ins b =
     b\<lparr>instructions := instructions b @ [ins], events := events b @ [Added ins]\<rparr>"

definition current_push :: "MDefinition \<Rightarrow> IonBuilder \<Rightarrow> IonBuilder" where
  "current_push d b = b\<lparr>stack := d # stack b, events := events b @ [Pushed d]\<rparr>"

definition setImplicitlyUsedUnchecked :: "CallInfo \<Rightarrow> IonBuilder \<Rightarrow> IonBuilder" where
  "setImplicitlyUsedUnchecked callInfo b =
     b\<lparr>implicitlyUsed :=
          implicitlyUsed b \<union> {funArg callInfo, thisArg callInfo} \<union> set (args callInfo)\<rparr>"

text \<open>
  Modelled from the spec: \<^verbatim>\<open>IonBuilder::pushConstant\<close> is in \<^verbatim>\<open>IonBuilder.cpp\<close>, not among
  the sources. Emission always pushes "exactly one logical result value (which may be a
  placeholder constant for void-returning specializations)": the constant is created, added
  to the current block and pushed.
\<close>

definition pushConstant :: "Value \<Rightarrow> IonBuilder \<Rightarrow> IonBuilder" where
  "pushConstant v b = current_push (MConstant v) (current_add (MConstant v) b)"

datatype InliningStatus =
    InliningStatus_Error | InliningStatus_NotInlined | InliningStatus_Inlined

text \<open>Predictions about typed objects, as \<^verbatim>\<open>elementAccessIsTypedObjectArrayOfScalarType\<close> reads them.\<close>

datatype TypeKind = Kind_Scalar | Kind_Reference | Kind_Struct | Kind_Array

record ElementPrediction =
  elem_isUseless :: bool
  elem_kind :: TypeKind
  elem_scalarType :: Scalar_Type

record TypedObjectPrediction =
  isUseless :: bool
  ofArrayKind :: bool
  arrayElementType :: ElementPrediction

text \<open>
  The read-only context of one call site: the answers of the collaborators that are not in
  this file (bytecode queries, type inference, the baseline inspector, and the helpers of
  \<^verbatim>\<open>IonBuilder.cpp\<close> and \<^verbatim>\<open>MIR.cpp\<close> that the specializers call). A helper that emits
  instructions answers with the instructions it appends to the current block, and
  \<^verbatim>\<open>resumeAfter\<close> answers whether the resume point could be attached to the instruction.
\<close>

record Environment =
  inlineNative :: bool
  getInlineReturnTypeSet :: TemporaryTypeSet
  BytecodeIsPopped :: bool
  resumeAfter :: "MDefinition \<Rightarrow> bool"
  ArrayPrototypeHasIndexedProperty :: bool
  getTemplateObjectForNative :: "JSNative \<Rightarrow> TemplateObject option"
  ElementAccessIsDenseNative :: "MDefinition \<Rightarrow> MDefinition \<Rightarrow> bool"
  PropertyWriteNeedsTypeBarrier :: "MDefinition \<Rightarrow> MDefinition \<Rightarrow> bool"
  ElementAccessIsAnyTypedArray :: "MDefinition \<Rightarrow> MDefinition \<Rightarrow> Scalar_Type option"
  typedObjectPrediction :: "MDefinition \<Rightarrow> TypedObjectPrediction"
  jsop_setelem_dense ::
    "DoubleConversion \<Rightarrow> MDefinition \<Rightarrow> MDefinition \<Rightarrow> MDefinition
       \<Rightarrow> bool \<times> MDefinition list"
  jsop_setelem_typed ::
    "Scalar_Type \<Rightarrow> MDefinition \<Rightarrow> MDefinition \<Rightarrow> MDefinition \<Rightarrow> bool \<times> MDefinition list"
  jsop_setelem_typed_object ::
    "Scalar_Type \<Rightarrow> MDefinition \<Rightarrow> MDefinition \<Rightarrow> MDefinition \<Rightarrow> bool \<times> MDefinition list"
  addTypedArrayLengthAndData ::
    "MDefinition \<Rightarrow> MDefinition \<Rightarrow> MDefinition list \<times> MDefinition \<times> MDefinition"

definition getInlineReturnType :: "Environment \<Rightarrow> MIRType" where
  "getInlineReturnType env = getKnownMIRType (getInlineReturnTypeSet env)"

section \<open>Array natives\<close>

definition inlineArraySplice ::
  "Environment \<Rightarrow> CallInfo \<Rightarrow> IonBuilder \<Rightarrow> InliningStatus \<times> IonBuilder" where
  "inlineArraySplice env callInfo b =
     (if argc callInfo \<noteq> 2 \<or> constructing callInfo then (InliningStatus_NotInlined, b)
      else if getInlineReturnType env \<noteq> MIRType_Object then (InliningStatus_NotInlined, b)
      else if def_type (thisArg callInfo) \<noteq> MIRType_Object then (InliningStatus_NotInlined, b)
      else if def_type (getArg callInfo 0) \<noteq> MIRType_Int32 then (InliningStatus_NotInlined, b)
      else if def_type (getArg callInfo 1) \<noteq> MIRType_Int32 then (InliningStatus_NotInlined, b)
      else
        let b1 = setImplicitlyUsedUnchecked callInfo b in
        if \<not> BytecodeIsPopped env then (InliningStatus_NotInlined, b1)
        else
          let ins = MArraySplice (thisArg callInfo) (getArg callInfo 0) (getArg callInfo 1);
              b2 = current_add ins b1;
              b3 = pushConstant UndefinedValue b2
          in if \<not> resumeAfter env ins then (InliningStatus_Error, b3)
             else (InliningStatus_Inlined, b3))"

definition inlineArrayJoin ::
  "Environment \<Rightarrow> CallInfo \<Rightarrow> IonBuilder \<Rightarrow> InliningStatus \<times> IonBuilder" where
  "inlineArrayJoin env callInfo b =
     (if argc callInfo \<noteq> 1 \<or> constructing callInfo then (InliningStatus_Error, b)
      else if getInlineReturnType env \<noteq> MIRType_String then (InliningStatus_Error, b)
      else if def_type (thisArg callInfo) \<noteq> MIRType_Object then (InliningStatus_Error, b)
      else if def_type (getArg callInfo 0) \<noteq> MIRType_String then (InliningStatus_Error, b)
      else
        let b1 = setImplicitlyUsedUnchecked callInfo b;
            ins = MArrayJoin (thisArg callInfo) (getArg callInfo 0);
            b2 = current_add ins b1;
            b3 = current_push ins b2
        in (InliningStatus_Inlined, b3))"

text \<open>
  Modelled from the spec: \<^verbatim>\<open>HeapTypeSetKey::knownSubset\<close> is part of type inference, not
  among the sources. Concat "requires the receiver's element type-set to already be a superset
  of the argument's element type-set".
\<close>

definition knownSubset :: "Type list \<Rightarrow> Type list \<Rightarrow> bool" where
  "knownSubset elemTypes thisElemTypes = (set elemTypes \<subseteq> set thisElemTypes)"

text \<open>
  The loop of \<^verbatim>\<open>inlineArrayConcat\<close> over the objects of the argument's type set, from index
  \<^verbatim>\<open>i\<close>: \<^verbatim>\<open>False\<close> when it returns \<^verbatim>\<open>InliningStatus_NotInlined\<close>, \<^verbatim>\<open>True\<close> when it runs to
  its end.
\<close>

function inlineArrayConcat_argTypes ::
  "TemporaryTypeSet \<Rightarrow> Type list \<Rightarrow> nat \<Rightarrow> bool" where
  "inlineArrayConcat_argTypes argTypes thisElemTypes i =
     (if i < getObjectCount argTypes then
        (case getObject argTypes i of
           None \<Rightarrow> inlineArrayConcat_argTypes argTypes thisElemTypes (i + 1)
         | Some argType \<Rightarrow>
             if unknownProperties argType then False
             else if \<not> knownSubset (voidProperty argType) thisElemTypes then False
             else inlineArrayConcat_argTypes argTypes thisElemTypes (i + 1))
      else True)"
  by pat_completeness auto
termination
  by (relation "measure (\<lambda>(argTypes, thisElemTypes, i). getObjectCount argTypes - i)") auto

text \<open>
  \<^verbatim>\<open>MArrayConcat\<close> keeps the receiver, the argument and the template object; the allocator,
  the constraint list and the initial heap passed to \<^verbatim>\<open>New\<close> are left out.
\<close>

definition inlineArrayConcat ::
  "Environment \<Rightarrow> CallInfo \<Rightarrow> IonBuilder \<Rightarrow> InliningStatus \<times> IonBuilder" where
  "inlineArrayConcat env callInfo b =
     (if argc callInfo \<noteq> 1 \<or> constructing callInfo then (InliningStatus_NotInlined, b)
      else if getInlineReturnType env \<noteq> MIRType_Object then (InliningStatus_NotInlined, b)
      else if def_type (thisArg callInfo) \<noteq> MIRType_Object then (InliningStatus_NotInlined, b)
      else if def_type (getArg callInfo 0) \<noteq> MIRType_Object then (InliningStatus_NotInlined, b)
      else
        (case (resultTypeSet (thisArg callInfo), resultTypeSet (getArg callInfo 0)) of
           (Some thisTypes, Some argTypes) \<Rightarrow>
             if getKnownClass thisTypes \<noteq> Some ArrayObject_class
             then (InliningStatus_NotInlined, b)
             else if hasObjectFlags thisTypes
                       [OBJECT_FLAG_SPARSE_INDEXES, OBJECT_FLAG_LENGTH_OVERFLOW]
             then (InliningStatus_NotInlined, b)
             else if getKnownClass argTypes \<noteq> Some ArrayObject_class
             then (InliningStatus_NotInlined, b)
             else if hasObjectFlags argTypes
                       [OBJECT_FLAG_SPARSE_INDEXES, OBJECT_FLAG_LENGTH_OVERFLOW]
             then (InliningStatus_NotInlined, b)
             else if ArrayPrototypeHasIndexedProperty env then (InliningStatus_NotInlined, b)
             else if getObjectCount thisTypes \<noteq> 1 then (InliningStatus_NotInlined, b)
             else
               (case getTypeObject thisTypes 0 of
                  None \<Rightarrow> (InliningStatus_NotInlined, b)
                | Some baseThisType \<Rightarrow>
                    if unknownProperties baseThisType then (InliningStatus_NotInlined, b)
                    else if \<not> hasObjectFlags thisTypes [OBJECT_FLAG_NON_PACKED] \<and>
                            hasObjectFlags argTypes [OBJECT_FLAG_NON_PACKED]
                    then (InliningStatus_NotInlined, b)
                    else
                      let thisElemTypes = voidProperty baseThisType;
                          resTypes = getInlineReturnTypeSet env
                      in
                      if \<not> hasType resTypes (ObjectType (key_id baseThisType))
                      then (InliningStatus_NotInlined, b)
                      else if \<not> inlineArrayConcat_argTypes argTypes thisElemTypes 0
                      then (InliningStatus_NotInlined, b)
                      else
                        (case getTemplateObjectForNative env array_concat of
                           None \<Rightarrow> (InliningStatus_NotInlined, b)
                         | Some templateObj \<Rightarrow>
                             if template_type templateObj \<noteq> key_id baseThisType
                             then (InliningStatus_NotInlined, b)
                             else
                               let b1 = setImplicitlyUsedUnchecked callInfo b;
                                   ins = MArrayConcat (thisArg callInfo) (getArg callInfo 0)
                                           (template_id templateObj);
                                   b2 = current_add ins b1;
                                   b3 = current_push ins b2
                               in if \<not> resumeAfter env ins then (InliningStatus_Error, b3)
                                  else (InliningStatus_Inlined, b3)))
         | _ \<Rightarrow> (InliningStatus_NotInlined, b)))"

section \<open>Math natives\<close>

fun toNumber :: "Value \<Rightarrow> jsdouble" where
  "toNumber (Int32Value i) = Finite (of_int (sint i))"
| "toNumber (DoubleValue d) = d"
| "toNumber _ = NaN"

text \<open>
  The constant exponent of \<^verbatim>\<open>inlineMathPow\<close>: present when the second argument is a
  constant whose value is a number.
\<close>

fun constantNumber :: "MDefinition \<Rightarrow> jsdouble option" where
  "constantNumber (MConstant v) = (if isNumber v then Some (toNumber v) else None)"
| "constantNumber _ = None"

text \<open>
  The block "Optimize some constant powers": six independent tests of the exponent in the
  source's order, each of which may set \<^verbatim>\<open>output\<close>.
\<close>

definition inlineMathPow_constant ::
  "jsdouble \<Rightarrow> MDefinition \<Rightarrow> MIRType \<Rightarrow> IonBuilder \<Rightarrow> MDefinition option \<times> IonBuilder" where
  "inlineMathPow_constant pow base outputType b0 =
     (let (output, b) = (None, b0);
          (output, b) =
             (if double_eq pow (Finite (1 / 2)) then
                let half = MPowHalf base in (Some half, current_add half b)
              else (output, b));
          (output, b) =
             (if double_eq pow (Finite (- (1 / 2))) then
                let half = MPowHalf base;
                    b = current_add half b;
                    one = MConstant (DoubleValue (Finite 1));
                    b = current_add one b;
                    quotient = MDiv one half MIRType_Double;
                    b = current_add quotient b
                in (Some quotient, b)
              else (output, b));
          (output, b) =
             (if double_eq pow (Finite 1) then (Some base, b) else (output, b));
          (output, b) =
             (if double_eq pow (Finite 2) then
                let mul = MMul base base outputType in (Some mul, current_add mul b)
              else (output, b));
          (output, b) =
             (if double_eq pow (Finite 3) then
                let mul1 = MMul base base outputType;
                    b = current_add mul1 b;
                    mul2 = MMul base mul1 outputType;
                    b = current_add mul2 b
                in (Some mul2, b)
              else (output, b));
          (output, b) =
             (if double_eq pow (Finite 4) then
                let y = MMul base base outputType;
                    b = current_add y b;
                    mul = MMul y y outputType;
                    b = current_add mul b
                in (Some mul, b)
              else (output, b))
      in (output, b))"

definition inlineMathPow ::
  "Environment \<Rightarrow> CallInfo \<Rightarrow> IonBuilder \<Rightarrow> InliningStatus \<times> IonBuilder" where
  "inlineMathPow env callInfo b =
     (if constructing callInfo then (InliningStatus_NotInlined, b)
      else if argc callInfo \<noteq> 2 then (InliningStatus_NotInlined, b)
      else
        let baseType = def_type (getArg callInfo 0);
            powerType = def_type (getArg callInfo 1);
            outputType = getInlineReturnType env
        in
        if outputType \<noteq> MIRType_Int32 \<and> outputType \<noteq> MIRType_Double
        then (InliningStatus_NotInlined, b)
        else if \<not> IsNumberType baseType then (InliningStatus_NotInlined, b)
        else if \<not> IsNumberType powerType then (InliningStatus_NotInlined, b)
        else
          let b = setImplicitlyUsedUnchecked callInfo b;
              base = getArg callInfo 0;
              power = getArg callInfo 1;
              (output, b) =
                 (case constantNumber (getArg callInfo 1) of
                    Some pow \<Rightarrow> inlineMathPow_constant pow base outputType b
                  | None \<Rightarrow> (None, b));
              (output, b) =
                 (case output of
                    None \<Rightarrow>
                      let powerType =
                            (if powerType = MIRType_Float32 then MIRType_Double else powerType);
                          pow = MPow base power powerType
                      in (pow, current_add pow b)
                  | Some out \<Rightarrow> (out, b));
              (output, b) =
                 (if outputType = MIRType_Int32 \<and> def_type output \<noteq> MIRType_Int32 then
                    let toInt = MToInt32 output in (toInt, current_add toInt b)
                  else (output, b));
              (output, b) =
                 (if outputType = MIRType_Double \<and> def_type output \<noteq> MIRType_Double then
                    let toDouble = MToDouble output in (toDouble, current_add toDouble b)
                  else (output, b))
          in (InliningStatus_Inlined, current_push output b))"

text \<open>
  The test of \<^verbatim>\<open>inlineMathMinMax\<close> on a floating-point argument: a constant that an int32
  minimum or maximum never selects. A constant of floating-point type holds a double.
\<close>

fun minmax_constant_is_nop :: "bool \<Rightarrow> MDefinition \<Rightarrow> bool" where
  "minmax_constant_is_nop isMax (MConstant (DoubleValue cte)) =
     (if double_ge cte INT32_MAX \<and> \<not> isMax then True
      else if double_le cte INT32_MIN \<and> isMax then True
      else False)"
| "minmax_constant_is_nop isMax _ = False"

text \<open>
  The first loop of \<^verbatim>\<open>inlineMathMinMax\<close>, over the arguments in order, on the pair
  (\<^verbatim>\<open>int32_cases\<close>, \<^verbatim>\<open>returnType\<close>); \<^verbatim>\<open>None\<close> is the return of
  \<^verbatim>\<open>InliningStatus_NotInlined\<close> in the default case. Appending to the vector is taken to
  succeed.
\<close>

fun inlineMathMinMax_classify ::
  "bool \<Rightarrow> MDefinition list \<Rightarrow> MDefinition list \<times> MIRType \<Rightarrow> (MDefinition list \<times> MIRType) option"
  where
  "inlineMathMinMax_classify isMax [] st = Some st"
| "inlineMathMinMax_classify isMax (arg # rest) (int32_cases, returnType) =
     (if def_type arg = MIRType_Int32 then
        inlineMathMinMax_classify isMax rest (int32_cases @ [arg], returnType)
      else if def_type arg = MIRType_Double \<or> def_type arg = MIRType_Float32 then
        (if minmax_constant_is_nop isMax arg then
           inlineMathMinMax_classify isMax rest (int32_cases, returnType)
         else inlineMathMinMax_classify isMax rest (int32_cases, MIRType_Double))
      else None)"

text \<open>The second loop, from index \<^verbatim>\<open>i\<close> with the chain built so far in \<^verbatim>\<open>lastIns\<close> (the source's \<^verbatim>\<open>last\<close>; \<^verbatim>\<open>isMax\<close> is its \<^verbatim>\<open>max\<close>).\<close>

function inlineMathMinMax_chain ::
  "MDefinition list \<Rightarrow> MIRType \<Rightarrow> bool \<Rightarrow> nat \<Rightarrow> MDefinition \<Rightarrow> IonBuilder
     \<Rightarrow> MDefinition \<times> IonBuilder" where
  "inlineMathMinMax_chain cases returnType isMax i lastIns b =
     (if i < length cases then
        let ins = MMinMax lastIns (cases ! 2) returnType isMax
        in inlineMathMinMax_chain cases returnType isMax (i + 1) ins (current_add ins b)
      else (lastIns, b))"
  by pat_completeness auto
termination
  by (relation "measure (\<lambda>(cases, returnType, isMax, i, lastIns, b). length cases - i)") auto

text \<open>
  The end of \<^verbatim>\<open>inlineMathMinMax\<close>, once \<^verbatim>\<open>cases\<close> and \<^verbatim>\<open>returnType\<close> are chosen: the
  single-operand short cut, or the chain.
\<close>

definition inlineMathMinMax_emit ::
  "MDefinition list \<Rightarrow> MIRType \<Rightarrow> bool \<Rightarrow> IonBuilder \<Rightarrow> InliningStatus \<times> IonBuilder" where
  "inlineMathMinMax_emit cases returnType isMax b =
     (if length cases = 1 then
        let limit = MLimitedTruncate (cases ! 0) NoTruncate;
            b = current_add limit b
        in (InliningStatus_Inlined, current_push limit b)
      else
        let lastIns = MMinMax (cases ! 0) (cases ! 1) returnType isMax;
            b = current_add lastIns b;
            (lastIns, b) = inlineMathMinMax_chain cases returnType isMax 2 lastIns b
        in (InliningStatus_Inlined, current_push lastIns b))"

definition inlineMathMinMax ::
  "Environment \<Rightarrow> CallInfo \<Rightarrow> bool \<Rightarrow> IonBuilder \<Rightarrow> InliningStatus \<times> IonBuilder" where
  "inlineMathMinMax env callInfo isMax b =
     (if argc callInfo < 1 \<or> constructing callInfo then (InliningStatus_NotInlined, b)
      else if \<not> IsNumberType (getInlineReturnType env) then (InliningStatus_NotInlined, b)
      else
        (case inlineMathMinMax_classify isMax (args callInfo) ([], getInlineReturnType env) of
           None \<Rightarrow> (InliningStatus_NotInlined, b)
         | Some (int32_cases, returnType) \<Rightarrow>
             let returnType = (if length int32_cases = 0 then MIRType_Double else returnType);
                 b = setImplicitlyUsedUnchecked callInfo b;
                 cases = (if returnType = MIRType_Int32 then int32_cases else args callInfo)
             in inlineMathMinMax_emit cases returnType isMax b))"

section \<open>String natives\<close>

text \<open>
  Modelled from the spec: \<^verbatim>\<open>IonBuilder::addBoundsCheck\<close> is in \<^verbatim>\<open>IonBuilder.cpp\<close>, not
  among the sources. The specializer must "emit an explicit bounds-check instruction ahead of
  the character-access instruction": the check of the index against the length is created,
  added to the current block and returned as the checked index.
\<close>

definition addBoundsCheck ::
  "MDefinition \<Rightarrow> MDefinition \<Rightarrow> IonBuilder \<Rightarrow> MDefinition \<times> IonBuilder" where
  "addBoundsCheck index len b =
     (let check = MBoundsCheck index len in (check, current_add check b))"

definition inlineConstantCharCodeAt ::
  "CallInfo \<Rightarrow> IonBuilder \<Rightarrow> InliningStatus \<times> IonBuilder" where
  "inlineConstantCharCodeAt callInfo b =
     (case (thisArg callInfo, getArg callInfo 0) of
        (MConstant strval, MConstant idxval) \<Rightarrow>
          (case (strval, idxval) of
             (StringValue str, Int32Value idx) \<Rightarrow>
               if \<not> isLinear str then (InliningStatus_NotInlined, b)
               else if sint idx < 0 \<or> unat idx \<ge> length (chars str)
               then (InliningStatus_NotInlined, b)
               else
                 let b = setImplicitlyUsedUnchecked callInfo b;
                     ch = chars str ! unat idx;
                     result = MConstant (Int32Value (ucast ch));
                     b = current_add result b
                 in (InliningStatus_Inlined, current_push result b)
           | _ \<Rightarrow> (InliningStatus_NotInlined, b))
      | _ \<Rightarrow> (InliningStatus_NotInlined, b))"

definition inlineStrCharCodeAt ::
  "Environment \<Rightarrow> CallInfo \<Rightarrow> IonBuilder \<Rightarrow> InliningStatus \<times> IonBuilder" where
  "inlineStrCharCodeAt env callInfo b =
     (if argc callInfo \<noteq> 1 \<or> constructing callInfo then (InliningStatus_NotInlined, b)
      else if getInlineReturnType env \<noteq> MIRType_Int32 then (InliningStatus_NotInlined, b)
      else if def_type (thisArg callInfo) \<noteq> MIRType_String \<and>
              def_type (thisArg callInfo) \<noteq> MIRType_Value
      then (InliningStatus_NotInlined, b)
      else
        let argType = def_type (getArg callInfo 0) in
        if argType \<noteq> MIRType_Int32 \<and> argType \<noteq> MIRType_Double
        then (InliningStatus_NotInlined, b)
        else
          let (constInlineStatus, bc) = inlineConstantCharCodeAt callInfo b in
          if constInlineStatus \<noteq> InliningStatus_NotInlined then (constInlineStatus, bc)
          else
            let b = setImplicitlyUsedUnchecked callInfo bc;
                index = MToInt32 (getArg callInfo 0);
                b = current_add index b;
                len = MStringLength (thisArg callInfo);
                b = current_add len b;
                (index, b) = addBoundsCheck index len b;
                charCode = MCharCodeAt (thisArg callInfo) index;
                b = current_add charCode b
            in (InliningStatus_Inlined, current_push charCode b))"

section \<open>Array intrinsics\<close>

definition elementAccessIsTypedObjectArrayOfScalarType ::
  "Environment \<Rightarrow> MDefinition \<Rightarrow> MDefinition \<Rightarrow> Scalar_Type option" where
  "elementAccessIsTypedObjectArrayOfScalarType env obj ident =
     (if def_type obj \<noteq> MIRType_Object then None
      else if def_type ident \<noteq> MIRType_Int32 \<and> def_type ident \<noteq> MIRType_Double then None
      else
        let prediction = typedObjectPrediction env obj in
        if isUseless prediction \<or> \<not> ofArrayKind prediction then None
        else
          let elemPrediction = arrayElementType prediction in
          if elem_isUseless elemPrediction \<or> elem_kind elemPrediction \<noteq> Kind_Scalar then None
          else Some (elem_scalarType elemPrediction))"

definition add_all :: "MDefinition list \<Rightarrow> IonBuilder \<Rightarrow> IonBuilder" where
  "add_all inss b = foldl (\<lambda>b ins. current_add ins b) b inss"

text \<open>
  The three store helpers. Each hands the group to a \<^verbatim>\<open>jsop_setelem_*\<close> routine of
  \<^verbatim>\<open>IonBuilder.cpp\<close> with \<^verbatim>\<open>SetElem_Unsafe\<close>; the routine appends its instructions to the
  current block and answers whether it succeeded. The dense store reads the double conversion
  through \<^verbatim>\<open>obj->resultTypeSet()\<close> without a null test: for an array without type set the
  source dereferences a null pointer, and the result is \<^verbatim>\<open>None\<close>.
\<close>

definition inlineUnsafeSetDenseArrayElement ::
  "Environment \<Rightarrow> CallInfo \<Rightarrow> nat \<Rightarrow> IonBuilder \<Rightarrow> (bool \<times> IonBuilder) option" where
  "inlineUnsafeSetDenseArrayElement env callInfo base b =
     (let obj = getArg callInfo (base + 0);
          ident = getArg callInfo (base + 1);
          elem = getArg callInfo (base + 2)
      in
      (case resultTypeSet obj of
         None \<Rightarrow> None
       | Some types \<Rightarrow>
           let conversion = convertDoubleElements types;
               (ok, inss) = jsop_setelem_dense env conversion obj ident elem
           in Some (ok, add_all inss b)))"

definition inlineUnsafeSetTypedArrayElement ::
  "Environment \<Rightarrow> CallInfo \<Rightarrow> nat \<Rightarrow> Scalar_Type \<Rightarrow> IonBuilder \<Rightarrow> bool \<times> IonBuilder" where
  "inlineUnsafeSetTypedArrayElement env callInfo base arrayType b =
     (let obj = getArg callInfo (base + 0);
          ident = getArg callInfo (base + 1);
          elem = getArg callInfo (base + 2);
          (ok, inss) = jsop_setelem_typed env arrayType obj ident elem
      in (ok, add_all inss b))"

definition inlineUnsafeSetTypedObjectArrayElement ::
  "Environment \<Rightarrow> CallInfo \<Rightarrow> nat \<Rightarrow> Scalar_Type \<Rightarrow> IonBuilder \<Rightarrow> bool \<times> IonBuilder" where
  "inlineUnsafeSetTypedObjectArrayElement env callInfo base arrayType b =
     (let obj = getArg callInfo (base + 0);
          ident = getArg callInfo (base + 1);
          elem = getArg callInfo (base + 2);
          (ok, inss) = jsop_setelem_typed_object env arrayType obj ident elem
      in (ok, add_all inss b))"

text \<open>
  The first loop of \<^verbatim>\<open>inlineUnsafePutElements\<close>, from group \<^verbatim>\<open>base\<close>: \<^verbatim>\<open>False\<close> when it
  returns \<^verbatim>\<open>InliningStatus_NotInlined\<close>. It emits nothing
  (\<^verbatim>\<open>PropertyWriteNeedsTypeBarrier\<close> is called with \<^verbatim>\<open>canModify = false\<close>).
\<close>

function inlineUnsafePutElements_validate :: "Environment \<Rightarrow> CallInfo \<Rightarrow> nat \<Rightarrow> bool" where
  "inlineUnsafePutElements_validate env callInfo base =
     (if base < argc callInfo then
        let obj = getArg callInfo (base + 0);
            ident = getArg callInfo (base + 1);
            elem = getArg callInfo (base + 2);
            isDenseNative = ElementAccessIsDenseNative env obj ident;
            writeNeedsBarrier =
              (if isDenseNative then PropertyWriteNeedsTypeBarrier env obj elem else False)
        in
        if (\<not> isDenseNative \<or> writeNeedsBarrier) \<and>
           ElementAccessIsAnyTypedArray env obj ident = None \<and>
           elementAccessIsTypedObjectArrayOfScalarType env obj ident = None
        then False
        else inlineUnsafePutElements_validate env callInfo (base + 3)
      else True)"
  by pat_completeness auto
termination
  by (relation "measure (\<lambda>(env, callInfo, base). argc callInfo - base)") auto

text \<open>
  The second loop, from group \<^verbatim>\<open>base\<close>. \<^verbatim>\<open>None\<close> is a crash, the null dereference
  of the dense store or the \<^verbatim>\<open>MOZ_CRASH\<close> at the end of the loop body; otherwise the status is \<^verbatim>\<open>InliningStatus_Error\<close> as soon as a store helper
  fails and \<^verbatim>\<open>InliningStatus_Inlined\<close> when the loop ends.
\<close>

function inlineUnsafePutElements_stores ::
  "Environment \<Rightarrow> CallInfo \<Rightarrow> nat \<Rightarrow> IonBuilder \<Rightarrow> (InliningStatus \<times> IonBuilder) option" where
  "inlineUnsafePutElements_stores env callInfo base b =
     (if base < argc callInfo then
        let obj = getArg callInfo (base + 0);
            ident = getArg callInfo (base + 1)
        in
        if ElementAccessIsDenseNative env obj ident then
          (case inlineUnsafeSetDenseArrayElement env callInfo base b of
             None \<Rightarrow> None
           | Some (ok, b) \<Rightarrow>
               if \<not> ok then Some (InliningStatus_Error, b)
               else inlineUnsafePutElements_stores env callInfo (base + 3) b)
        else
          (case ElementAccessIsAnyTypedArray env obj ident of
             Some arrayType \<Rightarrow>
               (let (ok, b) = inlineUnsafeSetTypedArrayElement env callInfo base arrayType b in
                if \<not> ok then Some (InliningStatus_Error, b)
                else inlineUnsafePutElements_stores env callInfo (base + 3) b)
           | None \<Rightarrow>
               (case elementAccessIsTypedObjectArrayOfScalarType env obj ident of
                  Some arrayType \<Rightarrow>
                    (let (ok, b) =
                           inlineUnsafeSetTypedObjectArrayElement env callInfo base arrayType b
                     in
                     if \<not> ok then Some (InliningStatus_Error, b)
                     else inlineUnsafePutElements_stores env callInfo (base + 3) b)
                | None \<Rightarrow> None))
      else Some (InliningStatus_Inlined, b))"
  by pat_completeness auto
termination
  by (relation "measure (\<lambda>(env, callInfo, base, b). argc callInfo - base)") auto

definition inlineUnsafePutElements ::
  "Environment \<Rightarrow> CallInfo \<Rightarrow> IonBuilder \<Rightarrow> (InliningStatus \<times> IonBuilder) option" where
  "inlineUnsafePutElements env callInfo b =
     (if argc callInfo < 3 \<or> argc callInfo mod 3 \<noteq> 0 \<or> constructing callInfo
      then Some (InliningStatus_NotInlined, b)
      else if \<not> inlineUnsafePutElements_validate env callInfo 0
      then Some (InliningStatus_NotInlined, b)
      else
        let b = setImplicitlyUsedUnchecked callInfo b;
            udef = MConstant UndefinedValue;
            b = current_add udef b;
            b = current_push udef b
        in inlineUnsafePutElements_stores env callInfo 0 b)"

section \<open>Class predicates\<close>

text \<open>
  The loop of \<^verbatim>\<open>inlineHasClass\<close> over the array \<^verbatim>\<open>remaining\<close>; a null class pointer is
  \<^verbatim>\<open>None\<close>.
\<close>

fun inlineHasClass_remaining ::
  "MDefinition \<Rightarrow> Class option list \<Rightarrow> MDefinition \<Rightarrow> IonBuilder \<Rightarrow> MDefinition \<times> IonBuilder"
  where
  "inlineHasClass_remaining arg [] lastIns b = (lastIns, b)"
| "inlineHasClass_remaining arg (clasp # rest) lastIns b =
     (let hasClass = MHasClass arg clasp;
          b = current_add hasClass b;
          either = MBitOr lastIns hasClass;
          b = current_add either b
      in inlineHasClass_remaining arg rest either b)"

definition inlineHasClass ::
  "Environment \<Rightarrow> CallInfo \<Rightarrow> Class option \<Rightarrow> Class option \<Rightarrow> Class option \<Rightarrow> Class option
     \<Rightarrow> IonBuilder \<Rightarrow> InliningStatus \<times> IonBuilder" where
  "inlineHasClass env callInfo clasp1 clasp2 clasp3 clasp4 b =
     (if constructing callInfo \<or> argc callInfo \<noteq> 1 then (InliningStatus_NotInlined, b)
      else if def_type (getArg callInfo 0) \<noteq> MIRType_Object then (InliningStatus_NotInlined, b)
      else if getInlineReturnType env \<noteq> MIRType_Boolean then (InliningStatus_NotInlined, b)
      else
        let knownClass =
              (case resultTypeSet (getArg callInfo 0) of
                 Some types \<Rightarrow> getKnownClass types
               | None \<Rightarrow> None);
            b =
              (case knownClass of
                 Some k \<Rightarrow>
                   pushConstant
                     (BooleanValue (Some k = clasp1 \<or> Some k = clasp2 \<or>
                                    Some k = clasp3 \<or> Some k = clasp4)) b
               | None \<Rightarrow>
                   let hasClass1 = MHasClass (getArg callInfo 0) clasp1;
                       b = current_add hasClass1 b
                   in
                   if clasp2 = None \<and> clasp3 = None \<and> clasp4 = None
                   then current_push hasClass1 b
                   else
                     let (lastIns, b) =
                           inlineHasClass_remaining (getArg callInfo 0)
                             [clasp2, clasp3, clasp4] hasClass1 b;
                         resultInverted = MNot lastIns;
                         b = current_add resultInverted b;
                         result = MNot resultInverted;
                         b = current_add result b
                     in current_push result b)
        in (InliningStatus_Inlined, setImplicitlyUsedUnchecked callInfo b))"

section \<open>Atomics natives\<close>

text \<open>
  \<^verbatim>\<open>atomicsMeetsPreconditions\<close>: \<^verbatim>\<open>None\<close> for \<^verbatim>\<open>false\<close>, and the element type written to
  \<^verbatim>\<open>*arrayType\<close> for \<^verbatim>\<open>true\<close>.
\<close>

definition atomicsMeetsPreconditions :: "Environment \<Rightarrow> CallInfo \<Rightarrow> Scalar_Type option" where
  "atomicsMeetsPreconditions env callInfo =
     (if def_type (getArg callInfo 0) \<noteq> MIRType_Object then None
      else if def_type (getArg callInfo 1) \<noteq> MIRType_Int32 then None
      else
        (case resultTypeSet (getArg callInfo 0) of
           None \<Rightarrow> None
         | Some arg0Types \<Rightarrow>
             let arrayType = getSharedTypedArrayType arg0Types in
             (case arrayType of
                Scalar_Int8 \<Rightarrow>
                  if getInlineReturnType env = MIRType_Int32 then Some arrayType else None
              | Scalar_Uint8 \<Rightarrow>
                  if getInlineReturnType env = MIRType_Int32 then Some arrayType else None
              | Scalar_Int16 \<Rightarrow>
                  if getInlineReturnType env = MIRType_Int32 then Some arrayType else None
              | Scalar_Uint16 \<Rightarrow>
                  if getInlineReturnType env = MIRType_Int32 then Some arrayType else None
              | Scalar_Int32 \<Rightarrow>
                  if getInlineReturnType env = MIRType_Int32 then Some arrayType else None
              | Scalar_Uint32 \<Rightarrow>
                  if getInlineReturnType env = MIRType_Double then Some arrayType else None
              | _ \<Rightarrow> None)))"

text \<open>
  \<^verbatim>\<open>atomicsCheckBounds\<close> hands the array and the index to
  \<^verbatim>\<open>addTypedArrayLengthAndData\<close> of \<^verbatim>\<open>IonBuilder.cpp\<close> with \<^verbatim>\<open>DoBoundsCheck\<close>, which appends
  its instructions and answers with the elements vector and the checked index.
\<close>

definition atomicsCheckBounds ::
  "Environment \<Rightarrow> CallInfo \<Rightarrow> IonBuilder \<Rightarrow> MDefinition \<times> MDefinition \<times> IonBuilder" where
  "atomicsCheckBounds env callInfo b =
     (let obj = getArg callInfo 0;
          index = getArg callInfo 1;
          (inss, elements, index) = addTypedArrayLengthAndData env obj index
      in (elements, index, add_all inss b))"

definition inlineAtomicsCompareExchange ::
  "Environment \<Rightarrow> CallInfo \<Rightarrow> IonBuilder \<Rightarrow> InliningStatus \<times> IonBuilder" where
  "inlineAtomicsCompareExchange env callInfo b =
     (if argc callInfo \<noteq> 4 \<or> constructing callInfo then (InliningStatus_NotInlined, b)
      else
        (case atomicsMeetsPreconditions env callInfo of
           None \<Rightarrow> (InliningStatus_NotInlined, b)
         | Some arrayType \<Rightarrow>
             let oldval = getArg callInfo 2 in
             if \<not> (def_type oldval = MIRType_Int32 \<or> def_type oldval = MIRType_Double)
             then (InliningStatus_NotInlined, b)
             else
               let newval = getArg callInfo 3 in
               if \<not> (def_type newval = MIRType_Int32 \<or> def_type newval = MIRType_Double)
               then (InliningStatus_NotInlined, b)
               else
                 let b = setImplicitlyUsedUnchecked callInfo b;
                     (elements, index, b) = atomicsCheckBounds env callInfo b;
                     (oldvalToWrite, b) =
                        (if def_type oldval = MIRType_Double then
                           let t = MTruncateToInt32 oldval in (t, current_add t b)
                         else (oldval, b));
                     (newvalToWrite, b) =
                        (if def_type newval = MIRType_Double then
                           let t = MTruncateToInt32 newval in (t, current_add t b)
                         else (newval, b));
                     cas = MCompareExchangeTypedArrayElement elements index arrayType
                             oldvalToWrite newvalToWrite (getInlineReturnType env);
                     b = current_add cas b
                 in (InliningStatus_Inlined, current_push cas b)))"

definition inlineAtomicsLoad ::
  "Environment \<Rightarrow> CallInfo \<Rightarrow> IonBuilder \<Rightarrow> InliningStatus \<times> IonBuilder" where
  "inlineAtomicsLoad env callInfo b =
     (if argc callInfo \<noteq> 2 \<or> constructing callInfo then (InliningStatus_NotInlined, b)
      else
        (case atomicsMeetsPreconditions env callInfo of
           None \<Rightarrow> (InliningStatus_NotInlined, b)
         | Some arrayType \<Rightarrow>
             let b = setImplicitlyUsedUnchecked callInfo b;
                 (elements, index, b) = atomicsCheckBounds env callInfo b;
                 load = MLoadTypedArrayElement elements index arrayType
                          DoesRequireMemoryBarrier (getInlineReturnType env);
                 b = current_add load b
             in (InliningStatus_Inlined, current_push load b)))"

definition inlineAtomicsStore ::
  "Environment \<Rightarrow> CallInfo \<Rightarrow> IonBuilder \<Rightarrow> InliningStatus \<times> IonBuilder" where
  "inlineAtomicsStore env callInfo b =
     (if argc callInfo \<noteq> 3 \<or> constructing callInfo then (InliningStatus_NotInlined, b)
      else
        (case atomicsMeetsPreconditions env callInfo of
           None \<Rightarrow> (InliningStatus_NotInlined, b)
         | Some arrayType \<Rightarrow>
             let val = getArg callInfo 2 in
             if \<not> (def_type val = MIRType_Int32 \<or> def_type val = MIRType_Double)
             then (InliningStatus_NotInlined, b)
             else
               let b = setImplicitlyUsedUnchecked callInfo b;
                   (elements, index, b) = atomicsCheckBounds env callInfo b;
                   (toWrite, b) =
                      (if def_type val = MIRType_Double then
                         let t = MTruncateToInt32 val in (t, current_add t b)
                       else (val, b));
                   store = MStoreTypedArrayElement elements index toWrite arrayType
                             DoesRequireMemoryBarrier;
                   b = current_add store b
               in (InliningStatus_Inlined, current_push val b)))"

text \<open>The operation a fetch-binop native stands for; \<^verbatim>\<open>None\<close> is "Bad atomic operation".\<close>

fun atomicOpOfNative :: "JSNative \<Rightarrow> AtomicOp option" where
  "atomicOpOfNative atomics_add = Some AtomicFetchAddOp"
| "atomicOpOfNative atomics_sub = Some AtomicFetchSubOp"
| "atomicOpOfNative atomics_and = Some AtomicFetchAndOp"
| "atomicOpOfNative atomics_or = Some AtomicFetchOrOp"
| "atomicOpOfNative atomics_xor = Some AtomicFetchXorOp"
| "atomicOpOfNative _ = None"

text \<open>\<^verbatim>\<open>inlineAtomicsBinop\<close>; \<^verbatim>\<open>None\<close> is its \<^verbatim>\<open>MOZ_CRASH\<close>.\<close>

definition inlineAtomicsBinop ::
  "Environment \<Rightarrow> CallInfo \<Rightarrow> JSNative \<Rightarrow> IonBuilder \<Rightarrow> (InliningStatus \<times> IonBuilder) option"
  where
  "inlineAtomicsBinop env callInfo native b =
     (if argc callInfo \<noteq> 3 \<or> constructing callInfo then Some (InliningStatus_NotInlined, b)
      else
        (case atomicsMeetsPreconditions env callInfo of
           None \<Rightarrow> Some (InliningStatus_NotInlined, b)
         | Some arrayType \<Rightarrow>
             let val = getArg callInfo 2 in
             if \<not> (def_type val = MIRType_Int32 \<or> def_type val = MIRType_Double)
             then Some (InliningStatus_NotInlined, b)
             else
               let b = setImplicitlyUsedUnchecked callInfo b;
                   (elements, index, b) = atomicsCheckBounds env callInfo b
               in
               (case atomicOpOfNative native of
                  None \<Rightarrow> None
                | Some k \<Rightarrow>
                    let (toWrite, b) =
                          (if def_type val = MIRType_Double then
                             let t = MTruncateToInt32 val in (t, current_add t b)
                           else (val, b));
                        binop = MAtomicTypedArrayElementBinop k elements index arrayType toWrite
                                  (getInlineReturnType env);
                        b = current_add binop b
                    in Some (InliningStatus_Inlined, current_push binop b))))"

section \<open>Dispatch\<close>

text \<open>
  \<^verbatim>\<open>inlineNativeCall\<close> on the natives above. \<^verbatim>\<open>None\<close> is a crash of the specializer it
  calls.
\<close>

definition inlineNativeCall ::
  "Environment \<Rightarrow> CallInfo \<Rightarrow> JSNative \<Rightarrow> IonBuilder \<Rightarrow> (InliningStatus \<times> IonBuilder) option"
  where
  "inlineNativeCall env callInfo native b =
     (if \<not> inlineNative env then Some (InliningStatus_NotInlined, b)
      else
        (case native of
           atomics_compareExchange \<Rightarrow> Some (inlineAtomicsCompareExchange env callInfo b)
         | atomics_load \<Rightarrow> Some (inlineAtomicsLoad env callInfo b)
         | atomics_store \<Rightarrow> Some (inlineAtomicsStore env callInfo b)
         | atomics_add \<Rightarrow> inlineAtomicsBinop env callInfo native b
         | atomics_sub \<Rightarrow> inlineAtomicsBinop env callInfo native b
         | atomics_and \<Rightarrow> inlineAtomicsBinop env callInfo native b
         | atomics_or \<Rightarrow> inlineAtomicsBinop env callInfo native b
         | atomics_xor \<Rightarrow> inlineAtomicsBinop env callInfo native b
         | array_concat \<Rightarrow> Some (inlineArrayConcat env callInfo b)
         | array_join \<Rightarrow> Some (inlineArrayJoin env callInfo b)
         | array_splice \<Rightarrow> Some (inlineArraySplice env callInfo b)
         | math_max \<Rightarrow> Some (inlineMathMinMax env callInfo True b)
         | math_min \<Rightarrow> Some (inlineMathMinMax env callInfo False b)
         | math_pow \<Rightarrow> Some (inlineMathPow env callInfo b)
         | js_str_charCodeAt \<Rightarrow> Some (inlineStrCharCodeAt env callInfo b)
         | intrinsic_UnsafePutElements \<Rightarrow> inlineUnsafePutElements env callInfo b
         | intrinsic_ObjectIsTypedObject \<Rightarrow>
             Some (inlineHasClass env callInfo
                     (Some OutlineTransparentTypedObject_class)
                     (Some OutlineOpaqueTypedObject_class)
                     (Some InlineTransparentTypedObject_class)
                     (Some InlineOpaqueTypedObject_class) b)
         | intrinsic_ObjectIsTransparentTypedObject \<Rightarrow>
             Some (inlineHasClass env callInfo
                     (Some OutlineTransparentTypedObject_class)
                     (Some InlineTransparentTypedObject_class) None None b)
         | intrinsic_ObjectIsOpaqueTypedObject \<Rightarrow>
             Some (inlineHasClass env callInfo
                     (Some OutlineOpaqueTypedObject_class)
                     (Some InlineOpaqueTypedObject_class) None None b)
         | intrinsic_TypeDescrIsSimpleType \<Rightarrow>
             Some (inlineHasClass env callInfo
                     (Some ScalarTypeDescr_class) (Some ReferenceTypeDescr_class) None None b)
         | intrinsic_TypeDescrIsArrayType \<Rightarrow>
             Some (inlineHasClass env callInfo
                     (Some SizedArrayTypeDescr_class) (Some UnsizedArrayTypeDescr_class)
                     None None b)
         | intrinsic_TypeDescrIsSizedArrayType \<Rightarrow>
             Some (inlineHasClass env callInfo (Some SizedArrayTypeDescr_class) None None None b)
         | intrinsic_TypeDescrIsUnsizedArrayType \<Rightarrow>
             Some (inlineHasClass env callInfo (Some UnsizedArrayTypeDescr_class)
                     None None None b)))"

section \<open>Predicates of the specification\<close>

text \<open>
  The allow-list of the atomics, in the words of the specification: 8, 16 and 32-bit signed
  integers and 8 and 16-bit unsigned integers with an int32 result, unsigned 32-bit integers
  with a floating-point result.
\<close>

definition atomics_allow_list :: "Scalar_Type \<Rightarrow> MIRType \<Rightarrow> bool" where
  "atomics_allow_list arrayType returnType =
     ((arrayType \<in> {Scalar_Int8, Scalar_Uint8, Scalar_Int16, Scalar_Uint16, Scalar_Int32} \<and>
       returnType = MIRType_Int32) \<or>
      (arrayType = Scalar_Uint32 \<and> returnType = MIRType_Double))"

text \<open>
  What a tree of \<^verbatim>\<open>MMul\<close> nodes computes, for a multiplication \<^verbatim>\<open>f\<close> and a valuation
  \<^verbatim>\<open>v\<close> of the definitions that are not multiplies.
\<close>

fun mul_value :: "('a \<Rightarrow> 'a \<Rightarrow> 'a) \<Rightarrow> (MDefinition \<Rightarrow> 'a) \<Rightarrow> MDefinition \<Rightarrow> 'a" where
  "mul_value f v (MMul l r t) = f (mul_value f v l) (mul_value f v r)"
| "mul_value f v d = v d"

text \<open>
  A float constant that the int32 bound dominates, in the words of the specification: for min
  a constant \<ge> INT32_MAX = 2147483647, for max a constant \<le> INT32_MIN = -2147483648.
\<close>

fun dominated_constant :: "bool \<Rightarrow> MDefinition \<Rightarrow> bool" where
  "dominated_constant isMax (MConstant (DoubleValue (Finite c))) =
     (if isMax then c \<le> - 2147483648 else 2147483647 \<le> c)"
| "dominated_constant isMax (MConstant (DoubleValue PosInf)) = (\<not> isMax)"
| "dominated_constant isMax (MConstant (DoubleValue NegInf)) = isMax"
| "dominated_constant isMax _ = False"

text \<open>A binary min/max node of the domain \<^verbatim>\<open>t\<close>.\<close>

fun is_minmax_of :: "MIRType \<Rightarrow> bool \<Rightarrow> MDefinition \<Rightarrow> bool" where
  "is_minmax_of t isMax (MMinMax _ _ t' isMax') = (t' = t \<and> isMax' = isMax)"
| "is_minmax_of t isMax _ = False"

text \<open>
  The array of the group at \<^verbatim>\<open>base\<close> has a type set when the access is to a dense native
  array (the store to a dense array reads it).
\<close>

definition dense_group_has_types :: "Environment \<Rightarrow> CallInfo \<Rightarrow> nat \<Rightarrow> bool" where
  "dense_group_has_types env callInfo base =
     (ElementAccessIsDenseNative env (getArg callInfo base) (getArg callInfo (base + 1))
        \<longrightarrow> resultTypeSet (getArg callInfo base) \<noteq> None)"

text \<open>
  The group of three arguments at \<^verbatim>\<open>base\<close> is a write that \<^verbatim>\<open>inlineUnsafePutElements\<close>
  can inline: to a dense array without a type barrier, to a typed array, or to a typed-object
  array of scalars.
\<close>

definition group_validates :: "Environment \<Rightarrow> CallInfo \<Rightarrow> nat \<Rightarrow> bool" where
  "group_validates env callInfo base =
     (let obj = getArg callInfo base;
          ident = getArg callInfo (base + 1);
          elem = getArg callInfo (base + 2)
      in (ElementAccessIsDenseNative env obj ident \<and>
          \<not> PropertyWriteNeedsTypeBarrier env obj elem) \<or>
         ElementAccessIsAnyTypedArray env obj ident \<noteq> None \<or>
         elementAccessIsTypedObjectArrayOfScalarType env obj ident \<noteq> None)"

text \<open>
  The preconditions of \<^verbatim>\<open>inlineArrayConcat\<close> other than the comparison of the element type
  sets: arity and types, both operands known dense arrays, a single receiver type with known
  properties that the result types contain, packedness, a template object of that type, no
  argument type with unknown properties, and a resume point that can be attached.
\<close>

definition concat_structural_preconditions ::
  "Environment \<Rightarrow> CallInfo \<Rightarrow> TemporaryTypeSet \<Rightarrow> TemporaryTypeSet \<Rightarrow> TypeObjectKey
     \<Rightarrow> TemplateObject \<Rightarrow> bool" where
  "concat_structural_preconditions env callInfo thisTypes argTypes baseThisType templateObj =
     (argc callInfo = 1 \<and> \<not> constructing callInfo \<and>
      getInlineReturnType env = MIRType_Object \<and>
      def_type (thisArg callInfo) = MIRType_Object \<and>
      def_type (getArg callInfo 0) = MIRType_Object \<and>
      resultTypeSet (thisArg callInfo) = Some thisTypes \<and>
      resultTypeSet (getArg callInfo 0) = Some argTypes \<and>
      getKnownClass thisTypes = Some ArrayObject_class \<and>
      getKnownClass argTypes = Some ArrayObject_class \<and>
      \<not> hasObjectFlags thisTypes [OBJECT_FLAG_SPARSE_INDEXES, OBJECT_FLAG_LENGTH_OVERFLOW] \<and>
      \<not> hasObjectFlags argTypes [OBJECT_FLAG_SPARSE_INDEXES, OBJECT_FLAG_LENGTH_OVERFLOW] \<and>
      \<not> ArrayPrototypeHasIndexedProperty env \<and>
      objects thisTypes = [Some baseThisType] \<and>
      \<not> isSingleObject baseThisType \<and>
      \<not> unknownProperties baseThisType \<and>
      (hasObjectFlags argTypes [OBJECT_FLAG_NON_PACKED]
         \<longrightarrow> hasObjectFlags thisTypes [OBJECT_FLAG_NON_PACKED]) \<and>
      hasType (getInlineReturnTypeSet env) (ObjectType (key_id baseThisType)) \<and>
      (\<forall>argType. Some argType \<in> set (objects argTypes) \<longrightarrow> \<not> unknownProperties argType) \<and>
      getTemplateObjectForNative env array_concat = Some templateObj \<and>
      template_type templateObj = key_id baseThisType \<and>
      resumeAfter env (MArrayConcat (thisArg callInfo) (getArg callInfo 0)
                         (template_id templateObj)))"

section \<open>Example inputs\<close>

definition ts0 :: TemporaryTypeSet where
  "ts0 = \<lparr>getKnownMIRType = MIRType_Value, getKnownClass = None,
          getSharedTypedArrayType = Scalar_TypeMax, objectFlags = [], objects = [],
          typeList = [], convertDoubleElements = DontConvertToDoubles\<rparr>"

definition env0 :: Environment where
  "env0 = \<lparr>inlineNative = True, getInlineReturnTypeSet = ts0, BytecodeIsPopped = False,
           resumeAfter = (\<lambda>ins. True), ArrayPrototypeHasIndexedProperty = False,
           getTemplateObjectForNative = (\<lambda>native. None),
           ElementAccessIsDenseNative = (\<lambda>obj ident. False),
           PropertyWriteNeedsTypeBarrier = (\<lambda>obj elem. False),
           ElementAccessIsAnyTypedArray = (\<lambda>obj ident. None),
           typedObjectPrediction =
             (\<lambda>obj. \<lparr>isUseless = True, ofArrayKind = False,
                      arrayElementType = \<lparr>elem_isUseless = True, elem_kind = Kind_Struct,
                                           elem_scalarType = Scalar_TypeMax\<rparr>\<rparr>),
           jsop_setelem_dense =
             (\<lambda>conversion obj ident elem. (True, [MStoreElement obj ident elem])),
           jsop_setelem_typed =
             (\<lambda>arrayType obj ident elem. (True, [MStoreElement obj ident elem])),
           jsop_setelem_typed_object =
             (\<lambda>arrayType obj ident elem. (True, [MStoreElement obj ident elem])),
           addTypedArrayLengthAndData =
             (\<lambda>obj index. ([MTypedArrayLength obj, MBoundsCheck index (MTypedArrayLength obj),
                             MTypedArrayElements obj],
                            MTypedArrayElements obj,
                            MBoundsCheck index (MTypedArrayLength obj)))\<rparr>"

text \<open>The context \<^verbatim>\<open>env0\<close> with the inline return type \<^verbatim>\<open>t\<close>.\<close>

definition env_returning :: "MIRType \<Rightarrow> Environment" where
  "env_returning t = env0\<lparr>getInlineReturnTypeSet := ts0\<lparr>getKnownMIRType := t\<rparr>\<rparr>"

definition b0 :: IonBuilder where
  "b0 = \<lparr>instructions = [], stack = [], implicitlyUsed = {}, events = []\<rparr>"

text \<open>A call that is not constructing, with the given receiver and arguments.\<close>

definition call :: "MDefinition \<Rightarrow> MDefinition list \<Rightarrow> CallInfo" where
  "call this as = \<lparr>funArg = MDef 0 MIRType_Object None, thisArg = this, args = as,
                   constructing = False\<rparr>"

text \<open>An object-typed definition whose type set is \<^verbatim>\<open>ts\<close>, and one of type \<^verbatim>\<open>t\<close> without type set.\<close>

definition obj_def :: "nat \<Rightarrow> TemporaryTypeSet \<Rightarrow> MDefinition" where
  "obj_def n ts = MDef n MIRType_Object (Some ts)"

definition typed_def :: "nat \<Rightarrow> MIRType \<Rightarrow> MDefinition" where
  "typed_def n t = MDef n t None"

text \<open>Type sets of an object of a known class and of a shared typed array.\<close>

definition class_typeset :: "Class \<Rightarrow> TemporaryTypeSet" where
  "class_typeset c = ts0\<lparr>getKnownMIRType := MIRType_Object, getKnownClass := Some c\<rparr>"

definition shared_array_typeset :: "Scalar_Type \<Rightarrow> TemporaryTypeSet" where
  "shared_array_typeset t =
     ts0\<lparr>getKnownMIRType := MIRType_Object, getSharedTypedArrayType := t\<rparr>"

text \<open>
  The type set of a dense array whose only type object has key \<^verbatim>\<open>n\<close> and element types
  \<^verbatim>\<open>elems\<close>, and a context for \<^verbatim>\<open>concat\<close> on a receiver of type \<^verbatim>\<open>n\<close>.
\<close>

definition array_key :: "nat \<Rightarrow> Type list \<Rightarrow> TypeObjectKey" where
  "array_key n elems =
     \<lparr>key_id = n, isSingleObject = False, unknownProperties = False, voidProperty = elems\<rparr>"

definition array_typeset :: "nat \<Rightarrow> Type list \<Rightarrow> TemporaryTypeSet" where
  "array_typeset n elems =
     ts0\<lparr>getKnownMIRType := MIRType_Object, getKnownClass := Some ArrayObject_class,
         objects := [Some (array_key n elems)]\<rparr>"

definition env_concat :: "nat \<Rightarrow> Environment" where
  "env_concat n =
     env0\<lparr>getInlineReturnTypeSet :=
            ts0\<lparr>getKnownMIRType := MIRType_Object, typeList := [ObjectType n]\<rparr>,
          getTemplateObjectForNative :=
            (\<lambda>native. Some \<lparr>template_id = 7, template_type = n\<rparr>)\<rparr>"

text \<open>A context in which every element access is to a dense native array.\<close>

definition env_dense :: Environment where
  "env_dense = env0\<lparr>ElementAccessIsDenseNative := (\<lambda>obj ident. True)\<rparr>"

text \<open>
  \<^verbatim>\<open>charCodeAt(1)\<close> on the constant string "AB", and on a constant rope of 64 letters B.
\<close>

definition constant_AB_call :: CallInfo where
  "constant_AB_call =
     call (MConstant (StringValue \<lparr>chars = [65, 66], isLinear = True\<rparr>))
       [MConstant (Int32Value 1)]"

definition constant_rope_call :: CallInfo where
  "constant_rope_call =
     call (MConstant (StringValue \<lparr>chars = replicate 64 66, isLinear = False\<rparr>))
       [MConstant (Int32Value 1)]"

section \<open>Properties\<close>

declare inlineMathMinMax_chain.simps [simp del]
declare inlineArrayConcat_argTypes.simps [simp del]
declare inlineUnsafePutElements_validate.simps [simp del]
declare inlineUnsafePutElements_stores.simps [simp del]

subsection \<open>The builder operations\<close>

lemma current_add_simps [simp]:
  "instructions (current_add ins b) = instructions b @ [ins]"
  "stack (current_add ins b) = stack b"
  "implicitlyUsed (current_add ins b) = implicitlyUsed b"
  "events (current_add ins b) = events b @ [Added ins]"
  by (simp_all add: current_add_def)

lemma current_push_simps [simp]:
  "instructions (current_push d b) = instructions b"
  "stack (current_push d b) = d # stack b"
  "implicitlyUsed (current_push d b) = implicitlyUsed b"
  "events (current_push d b) = events b @ [Pushed d]"
  by (simp_all add: current_push_def)

lemma setImplicitlyUsedUnchecked_simps [simp]:
  "instructions (setImplicitlyUsedUnchecked callInfo b) = instructions b"
  "stack (setImplicitlyUsedUnchecked callInfo b) = stack b"
  "events (setImplicitlyUsedUnchecked callInfo b) = events b"
  by (simp_all add: setImplicitlyUsedUnchecked_def)

lemma pushConstant_simps [simp]:
  "instructions (pushConstant v b) = instructions b @ [MConstant v]"
  "stack (pushConstant v b) = MConstant v # stack b"
  "implicitlyUsed (pushConstant v b) = implicitlyUsed b"
  "events (pushConstant v b) = events b @ [Added (MConstant v), Pushed (MConstant v)]"
  by (simp_all add: pushConstant_def)

lemma add_all_simps [simp]:
  "instructions (add_all inss b) = instructions b @ inss"
  "stack (add_all inss b) = stack b"
  "implicitlyUsed (add_all inss b) = implicitlyUsed b"
  "events (add_all inss b) = events b @ map Added inss"
  unfolding add_all_def by (induction inss arbitrary: b) simp_all

lemma add_all_append: "add_all ys (add_all xs b) = add_all (xs @ ys) b"
  by (simp add: add_all_def)

lemma argc_call [simp]: "argc (call this as) = length as"
  by (simp add: argc_def call_def)

lemma getArg_call [simp]: "getArg (call this as) i = as ! i"
  by (simp add: getArg_def call_def)

lemma call_sel [simp]:
  "thisArg (call this as) = this" "args (call this as) = as"
  "constructing (call this as) = False" "funArg (call this as) = MDef 0 MIRType_Object None"
  by (simp_all add: call_def)

lemma env_returning_sel [simp]:
  "getInlineReturnType (env_returning t) = t"
  "inlineNative (env_returning t) = True"
  "BytecodeIsPopped (env_returning t) = False"
  "resumeAfter (env_returning t) ins = True"
  by (simp_all add: env_returning_def env0_def getInlineReturnType_def)

lemma obj_def_sel [simp]:
  "def_type (obj_def n ts) = MIRType_Object" "resultTypeSet (obj_def n ts) = Some ts"
  "def_type (typed_def n t) = t" "resultTypeSet (typed_def n t) = None"
  by (simp_all add: obj_def_def typed_def_def)

lemma mul_value_typed_def [simp]: "mul_value f v (typed_def n t) = v (typed_def n t)"
  by (simp add: typed_def_def)

lemma shared_array_typeset_sel [simp]:
  "getSharedTypedArrayType (shared_array_typeset t) = t"
  by (simp add: shared_array_typeset_def ts0_def)

subsection \<open>Array natives\<close>

text \<open>
  C1. A specializer whose precondition validation fails before anything is emitted returns
  \<^verbatim>\<open>InliningStatus_NotInlined\<close>, never \<^verbatim>\<open>InliningStatus_Error\<close>, and leaves the graph
  unchanged. \<^verbatim>\<open>inlineArrayJoin\<close> does not: for \<^verbatim>\<open>join\<close> called without argument the dispatch
  answers \<^verbatim>\<open>InliningStatus_Error\<close> (the builder state is unchanged), where its sibling
  \<^verbatim>\<open>inlineArraySplice\<close> answers \<^verbatim>\<open>InliningStatus_NotInlined\<close> to the same call.
\<close>

theorem inlineArrayJoin_wrong_arity_is_Error:
  "inlineNativeCall (env_returning MIRType_String) (call (typed_def 1 MIRType_Object) [])
     array_join b0 = Some (InliningStatus_Error, b0)
   \<and> inlineNativeCall (env_returning MIRType_String) (call (typed_def 1 MIRType_Object) [])
     array_splice b0 = Some (InliningStatus_NotInlined, b0)"
  by (simp add: inlineNativeCall_def inlineArrayJoin_def inlineArraySplice_def)

text \<open>
  C10. \<^verbatim>\<open>splice\<close> is specialized only when it is called with exactly two int32 arguments, is
  not constructing and its result is popped; the inlined form adds the splice instruction and
  then pushes the constant \<^verbatim>\<open>undefined\<close>. When the result is used the specializer returns
  \<^verbatim>\<open>InliningStatus_NotInlined\<close> and has emitted nothing.
\<close>

theorem inlineArraySplice_specialized:
  "(fst (inlineArraySplice env callInfo b) = InliningStatus_Inlined \<longrightarrow>
      argc callInfo = 2 \<and> def_type (getArg callInfo 0) = MIRType_Int32 \<and>
      def_type (getArg callInfo 1) = MIRType_Int32 \<and> \<not> constructing callInfo \<and>
      BytecodeIsPopped env \<and>
      instructions (snd (inlineArraySplice env callInfo b)) =
        instructions b @ [MArraySplice (thisArg callInfo) (getArg callInfo 0) (getArg callInfo 1),
                          MConstant UndefinedValue] \<and>
      stack (snd (inlineArraySplice env callInfo b)) = MConstant UndefinedValue # stack b) \<and>
   (\<not> BytecodeIsPopped env \<longrightarrow>
      fst (inlineArraySplice env callInfo b) = InliningStatus_NotInlined \<and>
      instructions (snd (inlineArraySplice env callInfo b)) = instructions b \<and>
      stack (snd (inlineArraySplice env callInfo b)) = stack b)"
  by (simp add: inlineArraySplice_def Let_def)

theorem inlineArraySplice_specialized_witness:
  "fst (inlineArraySplice ((env_returning MIRType_Object)\<lparr>BytecodeIsPopped := True\<rparr>)
          (call (typed_def 1 MIRType_Object)
             [typed_def 2 MIRType_Int32, typed_def 3 MIRType_Int32]) b0)
     = InliningStatus_Inlined
   \<and> instructions
       (snd (inlineArraySplice ((env_returning MIRType_Object)\<lparr>BytecodeIsPopped := True\<rparr>)
               (call (typed_def 1 MIRType_Object)
                  [typed_def 2 MIRType_Int32, typed_def 3 MIRType_Int32]) b0))
     = [MArraySplice (typed_def 1 MIRType_Object) (typed_def 2 MIRType_Int32)
          (typed_def 3 MIRType_Int32), MConstant UndefinedValue]
   \<and> fst (inlineArraySplice (env_returning MIRType_Object)
          (call (typed_def 1 MIRType_Object)
             [typed_def 2 MIRType_Int32, typed_def 3 MIRType_Int32]) b0)
     = InliningStatus_NotInlined"
  using inlineArraySplice_specialized
    [of "(env_returning MIRType_Object)\<lparr>BytecodeIsPopped := True\<rparr>"
        "call (typed_def 1 MIRType_Object) [typed_def 2 MIRType_Int32, typed_def 3 MIRType_Int32]"
        b0]
    inlineArraySplice_specialized
    [of "env_returning MIRType_Object"
        "call (typed_def 1 MIRType_Object) [typed_def 2 MIRType_Int32, typed_def 3 MIRType_Int32]"
        b0]
  by (simp add: inlineArraySplice_def Let_def env_returning_def env0_def getInlineReturnType_def
        ts0_def b0_def)

subsection \<open>Math natives\<close>

text \<open>
  C2. The chain of a specialized \<^verbatim>\<open>Math.min\<close>/\<^verbatim>\<open>Math.max\<close> over n operands combines, node
  after node, the previous chain node with the next operand. The second loop of
  \<^verbatim>\<open>inlineMathMinMax\<close> reads \<^verbatim>\<open>cases[2]\<close> at every step: for \<^verbatim>\<open>Math.max\<close> of four int32
  operands the third node combines the chain with operand 2 again, and operand 3 is in no node.
\<close>

theorem inlineMathMinMax_four_operands:
  "instructions (snd (inlineMathMinMax (env_returning MIRType_Int32)
      (call (typed_def 1 MIRType_Object)
         [typed_def 2 MIRType_Int32, typed_def 3 MIRType_Int32,
          typed_def 4 MIRType_Int32, typed_def 5 MIRType_Int32]) True b0)) =
   [MMinMax (typed_def 2 MIRType_Int32) (typed_def 3 MIRType_Int32) MIRType_Int32 True,
    MMinMax (MMinMax (typed_def 2 MIRType_Int32) (typed_def 3 MIRType_Int32) MIRType_Int32 True)
       (typed_def 4 MIRType_Int32) MIRType_Int32 True,
    MMinMax (MMinMax (MMinMax (typed_def 2 MIRType_Int32) (typed_def 3 MIRType_Int32)
                        MIRType_Int32 True)
               (typed_def 4 MIRType_Int32) MIRType_Int32 True)
       (typed_def 4 MIRType_Int32) MIRType_Int32 True]"
  by (simp add: inlineMathMinMax_def inlineMathMinMax_emit_def IsNumberType_def Let_def
        inlineMathMinMax_chain.simps b0_def)

text \<open>
  C7 fails at its own example: 100000000.0 is below INT32_MAX, so for min of
  [3 (int32), constant 100000000.0] with inline return type int32 the constant stays and the
  result is one float-domain binary node, not an identity node.
\<close>

theorem inlineMathMinMax_min_constant_1e8:
  "instructions (snd (inlineMathMinMax (env_returning MIRType_Int32)
      (call (typed_def 1 MIRType_Object)
         [MConstant (Int32Value 3), MConstant (DoubleValue (Finite 100000000))]) False b0)) =
   [MMinMax (MConstant (Int32Value 3)) (MConstant (DoubleValue (Finite 100000000)))
      MIRType_Double False]"
  by (simp add: inlineMathMinMax_def inlineMathMinMax_emit_def IsNumberType_def Let_def
        inlineMathMinMax_chain.simps b0_def INT32_MAX_def INT32_MIN_def)

lemma minmax_constant_is_nop_dominated:
  "minmax_constant_is_nop isMax a = dominated_constant isMax a"
  by (induction isMax a rule: dominated_constant.induct)
     (auto simp: INT32_MAX_def INT32_MIN_def)

lemma dominated_constant_type:
  "dominated_constant isMax a \<Longrightarrow> def_type a = MIRType_Double"
  by (induction isMax a rule: dominated_constant.induct) auto

lemma classify_Double:
  "inlineMathMinMax_classify isMax as (ints, MIRType_Double) = Some (ints', rt') \<Longrightarrow>
   rt' = MIRType_Double"
  by (induction as arbitrary: ints) (auto split: if_splits)

lemma classify_forced:
  "inlineMathMinMax_classify isMax as (ints, rt) = Some (ints', rt') \<Longrightarrow>
   \<exists>a \<in> set as. IsFloatingPointType (def_type a) \<and> \<not> dominated_constant isMax a \<Longrightarrow>
   rt' = MIRType_Double"
proof (induction as arbitrary: ints rt)
  case Nil
  then show ?case by simp
next
  case (Cons a as)
  then show ?case
    by (auto simp: IsFloatingPointType_def minmax_constant_is_nop_dominated
             split: if_splits dest: classify_Double)
qed

lemma classify_numeric:
  "\<forall>a \<in> set as. IsNumberType (def_type a) \<Longrightarrow>
   inlineMathMinMax_classify isMax as st \<noteq> None"
proof (induction as arbitrary: st)
  case Nil
  then show ?case by simp
next
  case (Cons a as)
  obtain ints rt where st: "st = (ints, rt)" by (cases st)
  from Cons show ?case unfolding st
    by (auto simp: IsNumberType_def)
qed

lemma chain_nodes:
  "\<exists>new. inlineMathMinMax_chain cases t m i lastIns b =
            (if new = [] then lastIns else last new, add_all new b) \<and>
          length new = length cases - i \<and> (\<forall>ins \<in> set new. is_minmax_of t m ins)"
proof (induction "length cases - i" arbitrary: i lastIns b rule: less_induct)
  case less
  show ?case
  proof (cases "i < length cases")
    case False
    then have "inlineMathMinMax_chain cases t m i lastIns b = (lastIns, add_all [] b)"
      by (subst inlineMathMinMax_chain.simps) (simp add: add_all_def)
    with False show ?thesis by (intro exI [of _ "[]"]) simp
  next
    case True
    let ?ins = "MMinMax lastIns (cases ! 2) t m"
    have lt: "length cases - (i + 1) < length cases - i" using True by simp
    from less [OF lt, of ?ins "current_add ?ins b"] obtain new where
      n: "inlineMathMinMax_chain cases t m (i + 1) ?ins (current_add ?ins b) =
            (if new = [] then ?ins else last new, add_all new (current_add ?ins b))"
         "length new = length cases - (i + 1)" "\<forall>ins \<in> set new. is_minmax_of t m ins"
      by blast
    have a: "add_all new (current_add ?ins b) = add_all (?ins # new) b"
      by (simp add: add_all_def)
    have "inlineMathMinMax_chain cases t m i lastIns b =
            (if ?ins # new = [] then lastIns else last (?ins # new), add_all (?ins # new) b)"
      using True n(1) a by (subst inlineMathMinMax_chain.simps) (simp add: Let_def)
    moreover have "length (?ins # new) = length cases - i" using n(2) True by simp
    moreover have "\<forall>ins \<in> set (?ins # new). is_minmax_of t m ins" using n(3) by simp
    ultimately show ?thesis by blast
  qed
qed

lemma emit_chain:
  assumes "2 \<le> length cases"
  shows "\<exists>new. inlineMathMinMax_emit cases t m b =
            (InliningStatus_Inlined, current_push (last new) (add_all new b)) \<and>
          length new = length cases - 1 \<and> hd new = MMinMax (cases ! 0) (cases ! 1) t m \<and>
          (\<forall>ins \<in> set new. is_minmax_of t m ins)"
proof -
  let ?first = "MMinMax (cases ! 0) (cases ! 1) t m"
  from chain_nodes [of cases t m 2 ?first "current_add ?first b"] obtain new where
    n: "inlineMathMinMax_chain cases t m 2 ?first (current_add ?first b) =
          (if new = [] then ?first else last new, add_all new (current_add ?first b))"
       "length new = length cases - 2" "\<forall>ins \<in> set new. is_minmax_of t m ins"
    by blast
  have a: "add_all new (current_add ?first b) = add_all (?first # new) b"
    by (simp add: add_all_def)
  have l: "(if new = [] then ?first else last new) = last (?first # new)" by simp
  have "inlineMathMinMax_emit cases t m b =
          (InliningStatus_Inlined, current_push (last (?first # new)) (add_all (?first # new) b))"
    using assms n(1) unfolding a l by (simp add: inlineMathMinMax_emit_def Let_def)
  moreover have "length (?first # new) = length cases - 1" using n(2) assms by simp
  moreover have "hd (?first # new) = ?first" by simp
  moreover have "\<forall>ins \<in> set (?first # new). is_minmax_of t m ins" using n(3) by simp
  ultimately show ?thesis by blast
qed

text \<open>
  C7, as amended. If a float-typed argument of \<^verbatim>\<open>Math.min\<close>/\<^verbatim>\<open>Math.max\<close> is not a constant
  that the int32 bound dominates (for min a constant \<ge> INT32_MAX = 2147483647, for max a
  constant \<le> INT32_MIN = -2147483648), the whole chain is in the float domain: one identity
  node for a single argument, and otherwise one node per further argument, the first over
  arguments 0 and 1, each a binary min/max node of type double. For [x (int32), y (such a
  float)] it is the single node \<^verbatim>\<open>MMinMax x y Double\<close>. With inline return type int32 and
  [x (int32), y] where y is a dominated float constant, y is dropped and the remaining operand
  becomes the identity node \<^verbatim>\<open>MLimitedTruncate x NoTruncate\<close>, with no binary node.
\<close>

theorem inlineMathMinMax_domain:
  assumes "r = inlineMathMinMax env callInfo isMax b"
    and "new = drop (length (instructions b)) (instructions (snd r))"
  shows
  "(1 \<le> argc callInfo \<and> \<not> constructing callInfo \<and> IsNumberType (getInlineReturnType env) \<and>
    (\<forall>a \<in> set (args callInfo). IsNumberType (def_type a)) \<and>
    (\<exists>a \<in> set (args callInfo).
        IsFloatingPointType (def_type a) \<and> \<not> dominated_constant isMax a) \<longrightarrow>
    fst r = InliningStatus_Inlined \<and>
    instructions (snd r) = instructions b @ new \<and>
    stack (snd r) = last new # stack b \<and>
    (argc callInfo = 1 \<longrightarrow> new = [MLimitedTruncate (args callInfo ! 0) NoTruncate]) \<and>
    (2 \<le> argc callInfo \<longrightarrow>
       length new = argc callInfo - 1 \<and>
       hd new = MMinMax (args callInfo ! 0) (args callInfo ! 1) MIRType_Double isMax \<and>
       (\<forall>ins \<in> set new. is_minmax_of MIRType_Double isMax ins))) \<and>
   (\<not> constructing callInfo \<and> IsNumberType (getInlineReturnType env) \<and>
    args callInfo = [x, y] \<and> def_type x = MIRType_Int32 \<and>
    IsFloatingPointType (def_type y) \<and> \<not> dominated_constant isMax y \<longrightarrow>
    fst r = InliningStatus_Inlined \<and>
    instructions (snd r) = instructions b @ [MMinMax x y MIRType_Double isMax] \<and>
    stack (snd r) = MMinMax x y MIRType_Double isMax # stack b) \<and>
   (\<not> constructing callInfo \<and> getInlineReturnType env = MIRType_Int32 \<and>
    args callInfo = [x, y] \<and> def_type x = MIRType_Int32 \<and> dominated_constant isMax y \<longrightarrow>
    fst r = InliningStatus_Inlined \<and>
    instructions (snd r) = instructions b @ [MLimitedTruncate x NoTruncate] \<and>
    stack (snd r) = MLimitedTruncate x NoTruncate # stack b)"
proof (intro conjI impI)
  assume h: "1 \<le> argc callInfo \<and> \<not> constructing callInfo \<and>
    IsNumberType (getInlineReturnType env) \<and>
    (\<forall>a \<in> set (args callInfo). IsNumberType (def_type a)) \<and>
    (\<exists>a \<in> set (args callInfo).
        IsFloatingPointType (def_type a) \<and> \<not> dominated_constant isMax a)"
  then obtain ints rt where
    c: "inlineMathMinMax_classify isMax (args callInfo) ([], getInlineReturnType env) =
          Some (ints, rt)"
    using classify_numeric [of "args callInfo" isMax "([], getInlineReturnType env)"] by auto
  with h have "rt = MIRType_Double" using classify_forced by blast
  with h c have e: "r = inlineMathMinMax_emit (args callInfo) MIRType_Double isMax
        (setImplicitlyUsedUnchecked callInfo b)"
    unfolding assms(1) by (simp add: inlineMathMinMax_def Let_def)
  let ?b = "setImplicitlyUsedUnchecked callInfo b"
  have k: "fst r = InliningStatus_Inlined \<and>
    instructions (snd r) = instructions b @ new \<and>
    stack (snd r) = last new # stack b \<and>
    (argc callInfo = 1 \<longrightarrow> new = [MLimitedTruncate (args callInfo ! 0) NoTruncate]) \<and>
    (2 \<le> argc callInfo \<longrightarrow>
       length new = argc callInfo - 1 \<and>
       hd new = MMinMax (args callInfo ! 0) (args callInfo ! 1) MIRType_Double isMax \<and>
       (\<forall>ins \<in> set new. is_minmax_of MIRType_Double isMax ins))"
  proof (cases "argc callInfo = 1")
    case True
    then show ?thesis unfolding assms(2) e
      by (simp add: inlineMathMinMax_emit_def Let_def argc_def)
  next
    case False
    with h have g: "2 \<le> length (args callInfo)" by (simp add: argc_def)
    from emit_chain [OF g, of MIRType_Double isMax ?b] obtain n where
      n: "inlineMathMinMax_emit (args callInfo) MIRType_Double isMax ?b =
            (InliningStatus_Inlined, current_push (last n) (add_all n ?b))"
         "length n = length (args callInfo) - 1"
         "hd n = MMinMax (args callInfo ! 0) (args callInfo ! 1) MIRType_Double isMax"
         "\<forall>ins \<in> set n. is_minmax_of MIRType_Double isMax ins" by blast
    have "new = n" unfolding assms(2) e n(1) by simp
    then show ?thesis using n False unfolding e by (simp add: argc_def)
  qed
  show "fst r = InliningStatus_Inlined" using k by blast
  show "instructions (snd r) = instructions b @ new" using k by blast
  show "stack (snd r) = last new # stack b" using k by blast
  show "new = [MLimitedTruncate (args callInfo ! 0) NoTruncate]" if "argc callInfo = 1"
    using k that by blast
  show "length new = argc callInfo - 1" if "2 \<le> argc callInfo" using k that by blast
  show "hd new = MMinMax (args callInfo ! 0) (args callInfo ! 1) MIRType_Double isMax"
    if "2 \<le> argc callInfo" using k that by blast
  show "\<forall>ins \<in> set new. is_minmax_of MIRType_Double isMax ins" if "2 \<le> argc callInfo"
    using k that by blast
next
  assume h: "\<not> constructing callInfo \<and> IsNumberType (getInlineReturnType env) \<and>
    args callInfo = [x, y] \<and> def_type x = MIRType_Int32 \<and>
    IsFloatingPointType (def_type y) \<and> \<not> dominated_constant isMax y"
  then have e: "r =
      inlineMathMinMax_emit [x, y] MIRType_Double isMax (setImplicitlyUsedUnchecked callInfo b)"
    unfolding assms(1)
    by (auto simp: inlineMathMinMax_def Let_def argc_def IsFloatingPointType_def
          minmax_constant_is_nop_dominated)
  show "fst r = InliningStatus_Inlined"
    unfolding e by (simp add: inlineMathMinMax_emit_def Let_def inlineMathMinMax_chain.simps)
  show "instructions (snd r) = instructions b @ [MMinMax x y MIRType_Double isMax]"
    unfolding e by (simp add: inlineMathMinMax_emit_def Let_def inlineMathMinMax_chain.simps)
  show "stack (snd r) = MMinMax x y MIRType_Double isMax # stack b"
    unfolding e by (simp add: inlineMathMinMax_emit_def Let_def inlineMathMinMax_chain.simps)
next
  assume h: "\<not> constructing callInfo \<and> getInlineReturnType env = MIRType_Int32 \<and>
    args callInfo = [x, y] \<and> def_type x = MIRType_Int32 \<and> dominated_constant isMax y"
  then have "def_type y = MIRType_Double" using dominated_constant_type by blast
  with h have e: "r =
      inlineMathMinMax_emit [x] MIRType_Int32 isMax (setImplicitlyUsedUnchecked callInfo b)"
    unfolding assms(1)
    by (auto simp: inlineMathMinMax_def Let_def argc_def IsNumberType_def
          minmax_constant_is_nop_dominated)
  show "fst r = InliningStatus_Inlined"
    unfolding e by (simp add: inlineMathMinMax_emit_def Let_def)
  show "instructions (snd r) = instructions b @ [MLimitedTruncate x NoTruncate]"
    unfolding e by (simp add: inlineMathMinMax_emit_def Let_def)
  show "stack (snd r) = MLimitedTruncate x NoTruncate # stack b"
    unfolding e by (simp add: inlineMathMinMax_emit_def Let_def)
qed

theorem inlineMathMinMax_domain_witness:
  "instructions (snd (inlineMathMinMax (env_returning MIRType_Int32)
        (call (typed_def 1 MIRType_Object) [MConstant (Int32Value 3), typed_def 2 MIRType_Double])
        True b0)) =
     [MMinMax (MConstant (Int32Value 3)) (typed_def 2 MIRType_Double) MIRType_Double True]
   \<and> instructions (snd (inlineMathMinMax (env_returning MIRType_Int32)
        (call (typed_def 1 MIRType_Object)
           [MConstant (Int32Value 3), MConstant (DoubleValue (Finite 2147483647))])
        False b0)) =
     [MLimitedTruncate (MConstant (Int32Value 3)) NoTruncate]
   \<and> instructions (snd (inlineMathMinMax (env_returning MIRType_Int32)
        (call (typed_def 1 MIRType_Object)
           [MConstant (Int32Value 3), MConstant (DoubleValue (Finite 2147483646))])
        False b0)) =
     [MMinMax (MConstant (Int32Value 3)) (MConstant (DoubleValue (Finite 2147483646)))
        MIRType_Double False]
   \<and> instructions (snd (inlineMathMinMax (env_returning MIRType_Int32)
        (call (typed_def 1 MIRType_Object)
           [MConstant (Int32Value 3), MConstant (DoubleValue (Finite (- 2147483648)))])
        True b0)) =
     [MLimitedTruncate (MConstant (Int32Value 3)) NoTruncate]
   \<and> instructions (snd (inlineMathMinMax (env_returning MIRType_Int32)
        (call (typed_def 1 MIRType_Object)
           [MConstant (Int32Value 3), MConstant (DoubleValue (Finite (- 2147483647)))])
        True b0)) =
     [MMinMax (MConstant (Int32Value 3)) (MConstant (DoubleValue (Finite (- 2147483647))))
        MIRType_Double True]
   \<and> length (instructions (snd (inlineMathMinMax (env_returning MIRType_Int32)
        (call (typed_def 1 MIRType_Object)
           [MConstant (Int32Value 3), typed_def 2 MIRType_Double, typed_def 3 MIRType_Int32])
        True b0))) = 2
   \<and> list_all (is_minmax_of MIRType_Double True)
        (instructions (snd (inlineMathMinMax (env_returning MIRType_Int32)
        (call (typed_def 1 MIRType_Object)
           [MConstant (Int32Value 3), typed_def 2 MIRType_Double, typed_def 3 MIRType_Int32])
        True b0)))"
proof -
  let ?x = "MConstant (Int32Value 3)" and ?y = "typed_def 2 MIRType_Double"
  let ?k = "\<lambda>c. MConstant (DoubleValue (Finite c))"
  let ?env = "env_returning MIRType_Int32"
  let ?c = "\<lambda>y. call (typed_def 1 MIRType_Object) [?x, y]"
  let ?c3 = "call (typed_def 1 MIRType_Object) [?x, ?y, typed_def 3 MIRType_Int32]"
  have ny: "\<not> dominated_constant m ?y" for m by (simp add: typed_def_def)
  have e: "instructions b0 = []" by (simp add: b0_def)
  note t = inlineMathMinMax_domain [OF refl refl]
  have 1: "instructions (snd (inlineMathMinMax ?env (?c ?y) True b0)) =
             instructions b0 @ [MMinMax ?x ?y MIRType_Double True]"
    using t [of "?c ?y" ?env True b0 ?x ?y, THEN conjunct2, THEN conjunct1] ny
    by (simp add: IsNumberType_def IsFloatingPointType_def)
  have 2: "instructions (snd (inlineMathMinMax ?env (?c (?k 2147483647)) False b0)) =
             instructions b0 @ [MLimitedTruncate ?x NoTruncate]"
    using t [of "?c (?k 2147483647)" ?env False b0 ?x "?k 2147483647",
             THEN conjunct2, THEN conjunct2]
    by simp
  have 3: "instructions (snd (inlineMathMinMax ?env (?c (?k 2147483646)) False b0)) =
             instructions b0 @ [MMinMax ?x (?k 2147483646) MIRType_Double False]"
    using t [of "?c (?k 2147483646)" ?env False b0 ?x "?k 2147483646",
             THEN conjunct2, THEN conjunct1]
    by (simp add: IsNumberType_def IsFloatingPointType_def)
  have 4: "instructions (snd (inlineMathMinMax ?env (?c (?k (- 2147483648))) True b0)) =
             instructions b0 @ [MLimitedTruncate ?x NoTruncate]"
    using t [of "?c (?k (- 2147483648))" ?env True b0 ?x "?k (- 2147483648)",
             THEN conjunct2, THEN conjunct2]
    by simp
  have 5: "instructions (snd (inlineMathMinMax ?env (?c (?k (- 2147483647))) True b0)) =
             instructions b0 @ [MMinMax ?x (?k (- 2147483647)) MIRType_Double True]"
    using t [of "?c (?k (- 2147483647))" ?env True b0 ?x "?k (- 2147483647)",
             THEN conjunct2, THEN conjunct1]
    by (simp add: IsNumberType_def IsFloatingPointType_def)
  let ?r = "inlineMathMinMax ?env ?c3 True b0"
  have h: "1 \<le> argc ?c3 \<and> \<not> constructing ?c3 \<and> IsNumberType (getInlineReturnType ?env) \<and>
    (\<forall>a \<in> set (args ?c3). IsNumberType (def_type a)) \<and>
    (\<exists>a \<in> set (args ?c3). IsFloatingPointType (def_type a) \<and> \<not> dominated_constant True a)"
    using ny by (simp add: IsNumberType_def IsFloatingPointType_def)
  from t [of ?c3 ?env True b0 ?x ?y, THEN conjunct1, rule_format, OF h]
  have 6: "length (drop (length (instructions b0)) (instructions (snd ?r))) = argc ?c3 - 1"
    and 7: "\<forall>ins \<in> set (drop (length (instructions b0)) (instructions (snd ?r))).
              is_minmax_of MIRType_Double True ins"
    by simp_all
  have 8: "length (instructions (snd ?r)) = 2" using 6 by (simp add: e)
  have 9: "list_all (is_minmax_of MIRType_Double True) (instructions (snd ?r))"
    using 7 by (simp add: e list_all_iff)
  show ?thesis using 1 2 3 4 5 8 9 by (simp add: e)
qed

lemma inlineMathPow_constant_2:
  "inlineMathPow_constant (Finite 2) base t b = (Some (MMul base base t), current_add (MMul base base t) b)"
  by (simp add: inlineMathPow_constant_def Let_def)

lemma inlineMathPow_constant_3:
  "inlineMathPow_constant (Finite 3) base t b =
     (Some (MMul base (MMul base base t) t),
      current_add (MMul base (MMul base base t) t) (current_add (MMul base base t) b))"
  by (simp add: inlineMathPow_constant_def Let_def)

lemma inlineMathPow_constant_half:
  "inlineMathPow_constant (Finite (1 / 2)) base t b = (Some (MPowHalf base), current_add (MPowHalf base) b)"
  by (simp add: inlineMathPow_constant_def Let_def)

lemma inlineMathPow_constant_other:
  "\<not> double_eq pow (Finite (1 / 2)) \<Longrightarrow> \<not> double_eq pow (Finite (- (1 / 2))) \<Longrightarrow>
   \<not> double_eq pow (Finite 1) \<Longrightarrow> \<not> double_eq pow (Finite 2) \<Longrightarrow>
   \<not> double_eq pow (Finite 3) \<Longrightarrow> \<not> double_eq pow (Finite 4) \<Longrightarrow>
   inlineMathPow_constant pow base t b = (None, b)"
  by (simp add: inlineMathPow_constant_def Let_def)

text \<open>
  C5. \<^verbatim>\<open>Math.pow\<close> with a numeric constant exponent, once the type checks pass: exponent 2
  adds exactly one multiply of the base with itself; exponent 3 adds two chained multiplies,
  the second of the base (left operand) with the first product (right operand), which computes
  (x*x)*x for every commutative multiplication; exponent 0.5
  adds \<^verbatim>\<open>MPowHalf\<close> and no \<^verbatim>\<open>MPow\<close>; an exponent outside 0.5, -0.5, 1, 2, 3, 4 adds the
  generic \<^verbatim>\<open>MPow\<close>. A cast to the output type follows exactly when the type of the result
  differs from it.
\<close>

theorem inlineMathPow_constant_exponents:
  assumes "\<not> constructing callInfo" and "argc callInfo = 2"
    and "outputType = getInlineReturnType env"
    and "outputType = MIRType_Int32 \<or> outputType = MIRType_Double"
    and "IsNumberType (def_type (getArg callInfo 0))"
    and "IsNumberType (def_type (getArg callInfo 1))"
    and "constantNumber (getArg callInfo 1) = Some pow"
    and "base = getArg callInfo 0" and "pwr = getArg callInfo 1"
    and "r = inlineMathPow env callInfo b"
    and "generic = MPow base pwr
           (if def_type pwr = MIRType_Float32 then MIRType_Double else def_type pwr)"
    and "x = mul_value f v base"
  shows "fst r = InliningStatus_Inlined \<and>
    (pow = Finite 2 \<longrightarrow>
       instructions (snd r) = instructions b @ [MMul base base outputType] \<and>
       stack (snd r) = MMul base base outputType # stack b \<and>
       mul_value f v (hd (stack (snd r))) = f x x) \<and>
    (pow = Finite 3 \<longrightarrow>
       instructions (snd r) =
         instructions b @ [MMul base base outputType, MMul base (MMul base base outputType) outputType] \<and>
       stack (snd r) = MMul base (MMul base base outputType) outputType # stack b \<and>
       ((\<forall>a b. f a b = f b a) \<longrightarrow> mul_value f v (hd (stack (snd r))) = f (f x x) x)) \<and>
    (pow = Finite (1 / 2) \<longrightarrow>
       instructions (snd r) =
         instructions b @ MPowHalf base #
           (if def_type (MPowHalf base) \<noteq> outputType then [MToInt32 (MPowHalf base)] else []) \<and>
       stack (snd r) =
         (if def_type (MPowHalf base) \<noteq> outputType then MToInt32 (MPowHalf base) else MPowHalf base)
           # stack b) \<and>
    (\<not> double_eq pow (Finite (1 / 2)) \<and> \<not> double_eq pow (Finite (- (1 / 2))) \<and>
     \<not> double_eq pow (Finite 1) \<and> \<not> double_eq pow (Finite 2) \<and>
     \<not> double_eq pow (Finite 3) \<and> \<not> double_eq pow (Finite 4) \<longrightarrow>
       instructions (snd r) =
         instructions b @ generic #
           (if def_type generic \<noteq> outputType then [MToInt32 generic] else []) \<and>
       stack (snd r) =
         (if def_type generic \<noteq> outputType then MToInt32 generic else generic) # stack b)"
proof -
  have s: "fst r = InliningStatus_Inlined"
    using assms by (auto simp: inlineMathPow_def Let_def split: prod.splits)
  have p2: "instructions (snd r) = instructions b @ [MMul base base outputType] \<and>
       stack (snd r) = MMul base base outputType # stack b" if "pow = Finite 2"
    using assms that by (auto simp: inlineMathPow_def Let_def inlineMathPow_constant_2)
  have v2: "mul_value f v (hd (stack (snd r))) = f x x" if "pow = Finite 2"
    using p2 [OF that] assms(12) by simp
  have p3: "instructions (snd r) =
         instructions b @ [MMul base base outputType, MMul base (MMul base base outputType) outputType] \<and>
       stack (snd r) = MMul base (MMul base base outputType) outputType # stack b" if "pow = Finite 3"
    using assms that by (auto simp: inlineMathPow_def Let_def inlineMathPow_constant_3)
  have v3: "mul_value f v (hd (stack (snd r))) = f (f x x) x"
    if "pow = Finite 3" and c: "\<forall>a b. f a b = f b a"
  proof -
    have "mul_value f v (hd (stack (snd r))) = f x (f x x)"
      using p3 [OF that(1)] assms(12) by simp
    also have "\<dots> = f (f x x) x" using c by blast
    finally show ?thesis .
  qed
  have ph: "instructions (snd r) =
         instructions b @ MPowHalf base #
           (if def_type (MPowHalf base) \<noteq> outputType then [MToInt32 (MPowHalf base)] else []) \<and>
       stack (snd r) =
         (if def_type (MPowHalf base) \<noteq> outputType then MToInt32 (MPowHalf base) else MPowHalf base)
           # stack b" if "pow = Finite (1 / 2)"
    using assms that by (auto simp: inlineMathPow_def Let_def inlineMathPow_constant_half)
  have pg: "instructions (snd r) =
         instructions b @ generic #
           (if def_type generic \<noteq> outputType then [MToInt32 generic] else []) \<and>
       stack (snd r) =
         (if def_type generic \<noteq> outputType then MToInt32 generic else generic) # stack b"
    if "\<not> double_eq pow (Finite (1 / 2)) \<and> \<not> double_eq pow (Finite (- (1 / 2))) \<and>
     \<not> double_eq pow (Finite 1) \<and> \<not> double_eq pow (Finite 2) \<and>
     \<not> double_eq pow (Finite 3) \<and> \<not> double_eq pow (Finite 4)"
    using assms that by (auto simp: inlineMathPow_def Let_def inlineMathPow_constant_other)
  show ?thesis using s p2 v2 p3 v3 ph pg by blast
qed

theorem inlineMathPow_constant_exponents_witness:
  "instructions (snd (inlineMathPow (env_returning MIRType_Double)
      (call (typed_def 1 MIRType_Object)
         [typed_def 2 MIRType_Double, MConstant (DoubleValue (Finite 2))]) b0)) =
     [MMul (typed_def 2 MIRType_Double) (typed_def 2 MIRType_Double) MIRType_Double]
   \<and> instructions (snd (inlineMathPow (env_returning MIRType_Double)
      (call (typed_def 1 MIRType_Object)
         [typed_def 2 MIRType_Double, MConstant (DoubleValue (Finite 3))]) b0)) =
     [MMul (typed_def 2 MIRType_Double) (typed_def 2 MIRType_Double) MIRType_Double,
      MMul (typed_def 2 MIRType_Double)
        (MMul (typed_def 2 MIRType_Double) (typed_def 2 MIRType_Double) MIRType_Double)
        MIRType_Double]
   \<and> instructions (snd (inlineMathPow (env_returning MIRType_Int32)
      (call (typed_def 1 MIRType_Object)
         [typed_def 2 MIRType_Double, MConstant (DoubleValue (Finite (1 / 2)))]) b0)) =
     [MPowHalf (typed_def 2 MIRType_Double), MToInt32 (MPowHalf (typed_def 2 MIRType_Double))]
   \<and> instructions (snd (inlineMathPow (env_returning MIRType_Double)
      (call (typed_def 1 MIRType_Object)
         [typed_def 2 MIRType_Double, MConstant (DoubleValue (Finite 5))]) b0)) =
     [MPow (typed_def 2 MIRType_Double) (MConstant (DoubleValue (Finite 5))) MIRType_Double]
   \<and> mul_value (\<lambda>a b. a * b) (\<lambda>d. 2 :: int)
        (hd (stack (snd (inlineMathPow (env_returning MIRType_Double)
           (call (typed_def 1 MIRType_Object)
              [typed_def 2 MIRType_Double, MConstant (DoubleValue (Finite 3))]) b0)))) = 8"
proof -
  let ?x = "typed_def 2 MIRType_Double"
  let ?c = "\<lambda>e. call (typed_def 1 MIRType_Object) [?x, MConstant (DoubleValue (Finite e))]"
  have w: "constantNumber (getArg (?c e) 1) = Some (Finite e)" for e by simp
  have m: "\<forall>a b :: int. a * b = b * a" by (simp add: mult.commute)
  have x: "2 = mul_value (\<lambda>a b. a * b) (\<lambda>d. 2 :: int) (getArg (?c e) 0)" for e
    by simp
  note t = inlineMathPow_constant_exponents
             [where f = "\<lambda>a b. a * b" and v = "\<lambda>d. 2 :: int"]
  have 2: "instructions (snd (inlineMathPow (env_returning MIRType_Double) (?c 2) b0)) =
             instructions b0 @ [MMul ?x ?x MIRType_Double]"
    using t [where callInfo = "?c 2" and env = "env_returning MIRType_Double" and b = b0
               and pow = "Finite 2", OF _ _ refl _ _ _ w refl refl refl refl x]
    by (simp add: IsNumberType_def)
  have 3: "instructions (snd (inlineMathPow (env_returning MIRType_Double) (?c 3) b0)) =
             instructions b0 @ [MMul ?x ?x MIRType_Double, MMul ?x (MMul ?x ?x MIRType_Double) MIRType_Double]
           \<and> mul_value (\<lambda>a b. a * b) (\<lambda>d. 2 :: int)
               (hd (stack (snd (inlineMathPow (env_returning MIRType_Double) (?c 3) b0)))) = 8"
    using t [where callInfo = "?c 3" and env = "env_returning MIRType_Double" and b = b0
               and pow = "Finite 3", OF _ _ refl _ _ _ w refl refl refl refl x] m
    by (simp add: IsNumberType_def)
  have h: "instructions (snd (inlineMathPow (env_returning MIRType_Int32) (?c (1 / 2)) b0)) =
             instructions b0 @ [MPowHalf ?x, MToInt32 (MPowHalf ?x)]"
    using t [where callInfo = "?c (1 / 2)" and env = "env_returning MIRType_Int32" and b = b0
               and pow = "Finite (1 / 2)", OF _ _ refl _ _ _ w refl refl refl refl x]
    by (simp add: IsNumberType_def)
  have g: "instructions (snd (inlineMathPow (env_returning MIRType_Double) (?c 5) b0)) =
             instructions b0 @ [MPow ?x (MConstant (DoubleValue (Finite 5))) MIRType_Double]"
    using t [where callInfo = "?c 5" and env = "env_returning MIRType_Double" and b = b0
               and pow = "Finite 5", OF _ _ refl _ _ _ w refl refl refl refl x]
    by (simp add: IsNumberType_def)
  show ?thesis using 2 3 h g by (simp add: b0_def)
qed

subsection \<open>Array natives, continued\<close>

lemma all_from_split:
  "i < n \<Longrightarrow> (\<forall>j. i \<le> j \<and> j < n \<longrightarrow> P j) = (P i \<and> (\<forall>j. Suc i \<le> j \<and> j < n \<longrightarrow> P j))"
  by (metis Suc_leD Suc_leI le_neq_implies_less order_refl)

lemma inlineArrayConcat_argTypes_iff:
  "inlineArrayConcat_argTypes argTypes thisElemTypes i =
     (\<forall>j. i \<le> j \<and> j < length (objects argTypes) \<longrightarrow>
          (\<forall>k. objects argTypes ! j = Some k \<longrightarrow>
               \<not> unknownProperties k \<and> knownSubset (voidProperty k) thisElemTypes))"
proof (induction "length (objects argTypes) - i" arbitrary: i rule: less_induct)
  case less
  show ?case
  proof (cases "i < length (objects argTypes)")
    case False
    then show ?thesis
      by (subst inlineArrayConcat_argTypes.simps) (auto simp: getObjectCount_def)
  next
    case True
    have ih: "inlineArrayConcat_argTypes argTypes thisElemTypes (i + 1) =
       (\<forall>j. Suc i \<le> j \<and> j < length (objects argTypes) \<longrightarrow>
          (\<forall>k. objects argTypes ! j = Some k \<longrightarrow>
               \<not> unknownProperties k \<and> knownSubset (voidProperty k) thisElemTypes))"
      using less [of "i + 1"] True by simp
    show ?thesis
      apply (subst inlineArrayConcat_argTypes.simps)
      apply (subst all_from_split [OF True])
      using True ih
      by (auto simp: getObjectCount_def getObject_def split: option.splits)
  qed
qed

lemma nth_set_iff:
  "(\<forall>j. j < length xs \<longrightarrow> (\<forall>k. xs ! j = Some k \<longrightarrow> P k)) = (\<forall>k. Some k \<in> set xs \<longrightarrow> P k)"
  by (metis in_set_conv_nth)

text \<open>
  C8. On a call that meets the other preconditions of \<^verbatim>\<open>inlineArrayConcat\<close>, the call is
  inlined exactly when the element type set of every object type of the argument is a subset of
  the receiver's element type set; otherwise the specializer returns
  \<^verbatim>\<open>InliningStatus_NotInlined\<close> and leaves the builder state unchanged.
\<close>

theorem inlineArrayConcat_element_subset:
  assumes "concat_structural_preconditions env callInfo thisTypes argTypes baseThisType templateObj"
    and "ins = MArrayConcat (thisArg callInfo) (getArg callInfo 0) (template_id templateObj)"
  shows "inlineArrayConcat env callInfo b =
     (if \<forall>argType. Some argType \<in> set (objects argTypes) \<longrightarrow>
            set (voidProperty argType) \<subseteq> set (voidProperty baseThisType)
      then (InliningStatus_Inlined,
            current_push ins (current_add ins (setImplicitlyUsedUnchecked callInfo b)))
      else (InliningStatus_NotInlined, b))"
proof -
  have loop: "inlineArrayConcat_argTypes argTypes (voidProperty baseThisType) 0 =
     (\<forall>argType. Some argType \<in> set (objects argTypes) \<longrightarrow>
            set (voidProperty argType) \<subseteq> set (voidProperty baseThisType))"
    using assms(1) nth_set_iff [of "objects argTypes"
       "\<lambda>k. \<not> unknownProperties k \<and> knownSubset (voidProperty k) (voidProperty baseThisType)"]
    by (auto simp: inlineArrayConcat_argTypes_iff concat_structural_preconditions_def knownSubset_def)
  have t: "getTypeObject thisTypes 0 = Some baseThisType" "getObjectCount thisTypes = 1"
    using assms(1)
    by (simp_all add: concat_structural_preconditions_def getTypeObject_def getObject_def
          getObjectCount_def)
  show ?thesis
    using assms loop t
    by (auto simp: inlineArrayConcat_def concat_structural_preconditions_def Let_def)
qed

theorem inlineArrayConcat_element_subset_witness:
  "fst (inlineArrayConcat (env_concat 5)
          (call (obj_def 1 (array_typeset 5 [Int32Type, StringType]))
             [obj_def 2 (array_typeset 6 [Int32Type])]) b0) = InliningStatus_Inlined
   \<and> inlineArrayConcat (env_concat 5)
          (call (obj_def 1 (array_typeset 5 [Int32Type]))
             [obj_def 2 (array_typeset 6 [Int32Type, StringType])]) b0
       = (InliningStatus_NotInlined, b0)"
proof -
  have p: "concat_structural_preconditions (env_concat 5)
             (call (obj_def 1 (array_typeset 5 r)) [obj_def 2 (array_typeset 6 a)])
             (array_typeset 5 r) (array_typeset 6 a) (array_key 5 r)
             \<lparr>template_id = 7, template_type = 5\<rparr>" for r a
    by (simp add: concat_structural_preconditions_def env_concat_def env0_def ts0_def
          array_typeset_def array_key_def getInlineReturnType_def hasObjectFlags_def hasType_def)
  show ?thesis
    using inlineArrayConcat_element_subset [OF p [of "[Int32Type, StringType]" "[Int32Type]"] refl, of b0]
          inlineArrayConcat_element_subset [OF p [of "[Int32Type]" "[Int32Type, StringType]"] refl, of b0]
    by (simp add: array_typeset_def array_key_def ts0_def)
qed

subsection \<open>String natives\<close>

text \<open>
  C6 fails as stated for a constant string that is not linear: \<^verbatim>\<open>inlineConstantCharCodeAt\<close>
  declines a rope, and the call is inlined with a bounds check although receiver and index
  are constants and the index is in bounds.
\<close>

theorem inlineStrCharCodeAt_constant_rope:
  "instructions (snd (inlineStrCharCodeAt (env_returning MIRType_Int32) constant_rope_call b0)) =
     [MToInt32 (MConstant (Int32Value 1)),
      MStringLength (thisArg constant_rope_call),
      MBoundsCheck (MToInt32 (MConstant (Int32Value 1))) (MStringLength (thisArg constant_rope_call)),
      MCharCodeAt (thisArg constant_rope_call)
        (MBoundsCheck (MToInt32 (MConstant (Int32Value 1))) (MStringLength (thisArg constant_rope_call)))]"
  by (simp add: inlineStrCharCodeAt_def inlineConstantCharCodeAt_def constant_rope_call_def Let_def
        addBoundsCheck_def b0_def)

lemma inlineConstantCharCodeAt_status:
  "fst (inlineConstantCharCodeAt callInfo b) = InliningStatus_NotInlined \<or>
   fst (inlineConstantCharCodeAt callInfo b) = InliningStatus_Inlined"
  by (auto simp: inlineConstantCharCodeAt_def Let_def split: MDefinition.splits Value.splits)

lemma inlineConstantCharCodeAt_NotInlined:
  "fst (inlineConstantCharCodeAt callInfo b) = InliningStatus_NotInlined \<Longrightarrow>
   inlineConstantCharCodeAt callInfo b = (InliningStatus_NotInlined, b)"
  by (auto simp: inlineConstantCharCodeAt_def Let_def split: MDefinition.splits Value.splits if_splits)

lemma inlineConstantCharCodeAt_applies:
  "fst (inlineConstantCharCodeAt callInfo b) = InliningStatus_Inlined \<longleftrightarrow>
   (\<exists>str idx. thisArg callInfo = MConstant (StringValue str) \<and>
        getArg callInfo 0 = MConstant (Int32Value idx) \<and> isLinear str \<and>
        0 \<le> sint idx \<and> unat idx < length (chars str))"
  by (auto simp: inlineConstantCharCodeAt_def Let_def split: MDefinition.splits Value.splits if_splits)

text \<open>
  C6, as amended. Once the type checks of \<^verbatim>\<open>inlineStrCharCodeAt\<close> pass: if the receiver is a
  constant linear string and the index a constant int32 within its bounds, the only
  instruction added is the int32 constant of the code unit at the index, which is pushed;
  otherwise the index conversion, the string length and a bounds check are added before the
  character access, which reads at the checked index.
\<close>

theorem inlineStrCharCodeAt_constant_folding:
  assumes "argc callInfo = 1" and "\<not> constructing callInfo"
    and "getInlineReturnType env = MIRType_Int32"
    and "def_type (thisArg callInfo) = MIRType_String \<or> def_type (thisArg callInfo) = MIRType_Value"
    and "def_type (getArg callInfo 0) = MIRType_Int32 \<or> def_type (getArg callInfo 0) = MIRType_Double"
    and "r = inlineStrCharCodeAt env callInfo b"
    and "index = MToInt32 (getArg callInfo 0)" and "len = MStringLength (thisArg callInfo)"
  shows "fst r = InliningStatus_Inlined \<and>
    (thisArg callInfo = MConstant (StringValue str) \<and>
        getArg callInfo 0 = MConstant (Int32Value idx) \<and> isLinear str \<and>
        0 \<le> sint idx \<and> unat idx < length (chars str) \<longrightarrow>
        instructions (snd r) =
          instructions b @ [MConstant (Int32Value (ucast (chars str ! unat idx)))] \<and>
        stack (snd r) = MConstant (Int32Value (ucast (chars str ! unat idx))) # stack b) \<and>
    (\<not> (\<exists>str idx. thisArg callInfo = MConstant (StringValue str) \<and>
        getArg callInfo 0 = MConstant (Int32Value idx) \<and> isLinear str \<and>
        0 \<le> sint idx \<and> unat idx < length (chars str)) \<longrightarrow>
        instructions (snd r) =
          instructions b @ [index, len, MBoundsCheck index len,
                            MCharCodeAt (thisArg callInfo) (MBoundsCheck index len)] \<and>
        stack (snd r) = MCharCodeAt (thisArg callInfo) (MBoundsCheck index len) # stack b)"
proof (cases "\<exists>str idx. thisArg callInfo = MConstant (StringValue str) \<and>
        getArg callInfo 0 = MConstant (Int32Value idx) \<and> isLinear str \<and>
        0 \<le> sint idx \<and> unat idx < length (chars str)")
  case True
  then obtain str idx where c: "thisArg callInfo = MConstant (StringValue str)"
     "getArg callInfo 0 = MConstant (Int32Value idx)" "isLinear str"
        "0 \<le> sint idx" "unat idx < length (chars str)" by blast
  then show ?thesis using assms
    by (auto simp: inlineStrCharCodeAt_def inlineConstantCharCodeAt_def Let_def)
next
  case False
  then have "fst (inlineConstantCharCodeAt callInfo b) = InliningStatus_NotInlined"
    using inlineConstantCharCodeAt_applies [of callInfo b] inlineConstantCharCodeAt_status [of callInfo b]
    by auto
  then have "inlineConstantCharCodeAt callInfo b = (InliningStatus_NotInlined, b)"
    by (rule inlineConstantCharCodeAt_NotInlined)
  then show ?thesis using assms False
    by (auto simp: inlineStrCharCodeAt_def Let_def addBoundsCheck_def)
qed

theorem inlineStrCharCodeAt_constant_folding_witness:
  "instructions (snd (inlineStrCharCodeAt (env_returning MIRType_Int32) constant_AB_call b0)) =
     [MConstant (Int32Value 66)]
   \<and> instructions (snd (inlineStrCharCodeAt (env_returning MIRType_Int32)
        (call (typed_def 1 MIRType_String) [typed_def 2 MIRType_Int32]) b0)) =
     [MToInt32 (typed_def 2 MIRType_Int32), MStringLength (typed_def 1 MIRType_String),
      MBoundsCheck (MToInt32 (typed_def 2 MIRType_Int32)) (MStringLength (typed_def 1 MIRType_String)),
      MCharCodeAt (typed_def 1 MIRType_String)
        (MBoundsCheck (MToInt32 (typed_def 2 MIRType_Int32))
           (MStringLength (typed_def 1 MIRType_String)))]"
proof -
  note t = inlineStrCharCodeAt_constant_folding
  have a: "instructions (snd (inlineStrCharCodeAt (env_returning MIRType_Int32) constant_AB_call b0)) =
     instructions b0 @ [MConstant (Int32Value 66)]"
    using t [where callInfo = constant_AB_call and env = "env_returning MIRType_Int32" and b = b0
               and str = "\<lparr>chars = [65, 66], isLinear = True\<rparr>" and idx = 1,
             OF _ _ _ _ _ refl refl refl]
    by (simp add: constant_AB_call_def)
  let ?c = "call (typed_def 1 MIRType_String) [typed_def 2 MIRType_Int32]"
  have b: "instructions (snd (inlineStrCharCodeAt (env_returning MIRType_Int32) ?c b0)) =
     instructions b0 @ [MToInt32 (typed_def 2 MIRType_Int32), MStringLength (typed_def 1 MIRType_String),
      MBoundsCheck (MToInt32 (typed_def 2 MIRType_Int32)) (MStringLength (typed_def 1 MIRType_String)),
      MCharCodeAt (typed_def 1 MIRType_String)
        (MBoundsCheck (MToInt32 (typed_def 2 MIRType_Int32))
           (MStringLength (typed_def 1 MIRType_String)))]"
    using t [where callInfo = ?c and env = "env_returning MIRType_Int32" and b = b0
               and str = "\<lparr>chars = [65, 66], isLinear = True\<rparr>" and idx = 1,
             OF _ _ _ _ _ refl refl refl]
    by (simp add: typed_def_def)
  show ?thesis using a b by (simp add: b0_def)
qed

subsection \<open>Array intrinsics\<close>

lemma validate_unfold:
  "inlineUnsafePutElements_validate env callInfo base =
     (if base < argc callInfo
      then group_validates env callInfo base \<and>
           inlineUnsafePutElements_validate env callInfo (base + 3)
      else True)"
  by (subst inlineUnsafePutElements_validate.simps) (auto simp: group_validates_def Let_def)

lemma mult3_step:
  "base mod 3 = 0 \<Longrightarrow> base < n \<Longrightarrow>
   (\<forall>k. base \<le> 3 * k \<and> 3 * k < n \<longrightarrow> P (3 * k)) =
   (P base \<and> (\<forall>k. base + 3 \<le> 3 * k \<and> 3 * k < n \<longrightarrow> P (3 * k)))" for base :: nat
proof -
  assume m: "base mod 3 = 0" and l: "base < n"
  then obtain q where q: "base = 3 * q" by (auto simp: mod_eq_0_iff_dvd elim: dvdE)
  have "\<And>k. (base \<le> 3 * k) = (k = q \<or> base + 3 \<le> 3 * k)" unfolding q by auto
  then show ?thesis using l q by auto
qed

lemma validate_iff:
  "base mod 3 = 0 \<Longrightarrow>
   inlineUnsafePutElements_validate env callInfo base =
     (\<forall>k. base \<le> 3 * k \<and> 3 * k < argc callInfo \<longrightarrow> group_validates env callInfo (3 * k))"
proof (induction "argc callInfo - base" arbitrary: base rule: less_induct)
  case less
  show ?case
  proof (cases "base < argc callInfo")
    case False
    then show ?thesis by (subst validate_unfold) auto
  next
    case True
    have ih: "inlineUnsafePutElements_validate env callInfo (base + 3) =
       (\<forall>k. base + 3 \<le> 3 * k \<and> 3 * k < argc callInfo \<longrightarrow> group_validates env callInfo (3 * k))"
      using less(1) [of "base + 3"] less(2) True by simp
    show ?thesis
      by (subst validate_unfold, subst mult3_step [OF less(2) True]) (simp add: True ih)
  qed
qed

lemma stores_commit:
  "base mod 3 = 0 \<Longrightarrow>
   \<forall>k. base \<le> 3 * k \<and> 3 * k < argc callInfo \<longrightarrow>
       group_validates env callInfo (3 * k) \<and> dense_group_has_types env callInfo (3 * k) \<Longrightarrow>
   \<exists>st inss. inlineUnsafePutElements_stores env callInfo base b = Some (st, add_all inss b) \<and>
             (st = InliningStatus_Inlined \<or> st = InliningStatus_Error)"
proof (induction "argc callInfo - base" arbitrary: base b rule: less_induct)
  case less
  show ?case
  proof (cases "base < argc callInfo")
    case False
    then have "inlineUnsafePutElements_stores env callInfo base b =
                 Some (InliningStatus_Inlined, add_all [] b)"
      by (subst inlineUnsafePutElements_stores.simps) (simp add: add_all_def)
    then show ?thesis by blast
  next
    case True
    from less(3) have "group_validates env callInfo base \<and>
        dense_group_has_types env callInfo base \<and>
        (\<forall>k. base + 3 \<le> 3 * k \<and> 3 * k < argc callInfo \<longrightarrow>
           group_validates env callInfo (3 * k) \<and> dense_group_has_types env callInfo (3 * k))"
      by (subst (asm) mult3_step [OF less(2) True]) simp
    then have g: "group_validates env callInfo base"
      and d: "dense_group_has_types env callInfo base"
      and v: "\<forall>k. base + 3 \<le> 3 * k \<and> 3 * k < argc callInfo \<longrightarrow>
           group_validates env callInfo (3 * k) \<and> dense_group_has_types env callInfo (3 * k)"
      by blast+
    have lt: "argc callInfo - (base + 3) < argc callInfo - base" using True by simp
    have m: "(base + 3) mod 3 = 0" using less(2) by simp
    have ih0: "\<And>b. \<exists>st inss.
        inlineUnsafePutElements_stores env callInfo (base + 3) b = Some (st, add_all inss b) \<and>
        (st = InliningStatus_Inlined \<or> st = InliningStatus_Error)"
      using less(1) [OF lt m v] .
    have ih: "\<exists>st inss'.
        inlineUnsafePutElements_stores env callInfo (base + 3) (add_all inss b) =
          Some (st, add_all (inss @ inss') b) \<and>
        (st = InliningStatus_Inlined \<or> st = InliningStatus_Error)" for inss
      using ih0 [of "add_all inss b"] by (auto simp: add_all_append)
    let ?obj = "getArg callInfo base" and ?id = "getArg callInfo (base + 1)"
    show ?thesis
    proof (cases "ElementAccessIsDenseNative env ?obj ?id")
      case dn: True
      with d obtain types where ty: "resultTypeSet ?obj = Some types"
        by (auto simp: dense_group_has_types_def)
      obtain ok inss where s: "jsop_setelem_dense env (convertDoubleElements types) ?obj ?id
          (getArg callInfo (base + 2)) = (ok, inss)" by fastforce
      show ?thesis
        using ih [of inss] True dn ty s
        by (subst inlineUnsafePutElements_stores.simps)
           (auto simp: inlineUnsafeSetDenseArrayElement_def Let_def)
    next
      case nd: False
      show ?thesis
      proof (cases "ElementAccessIsAnyTypedArray env ?obj ?id")
        case (Some arrayType)
        obtain ok inss where s: "jsop_setelem_typed env arrayType ?obj ?id
          (getArg callInfo (base + 2)) = (ok, inss)" by fastforce
        show ?thesis
          using ih [of inss] True nd Some s
          by (subst inlineUnsafePutElements_stores.simps)
             (auto simp: inlineUnsafeSetTypedArrayElement_def Let_def)
      next
        case None
        with g nd obtain arrayType where
          o: "elementAccessIsTypedObjectArrayOfScalarType env ?obj ?id = Some arrayType"
          by (auto simp: group_validates_def Let_def)
        obtain ok inss where s: "jsop_setelem_typed_object env arrayType ?obj ?id
          (getArg callInfo (base + 2)) = (ok, inss)" by fastforce
        show ?thesis
          using ih [of inss] True nd None o s
          by (subst inlineUnsafePutElements_stores.simps)
             (auto simp: inlineUnsafeSetTypedObjectArrayElement_def Let_def)
      qed
    qed
  qed
qed

text \<open>
  C3. \<^verbatim>\<open>UnsafePutElements\<close>: an argument count that is zero or not a multiple of 3 gives
  \<^verbatim>\<open>InliningStatus_NotInlined\<close> with the builder state unchanged; so does any group of three
  arguments that does not validate as a dense-array, typed-array or typed-object-array write.
  When every group validates (and every dense array has the type set that its store reads) the
  specializer commits, and neither declines nor crashes: the constant \<^verbatim>\<open>undefined\<close> is added
  and pushed first, and everything after it only adds store instructions, so the value stack
  is the old one with \<^verbatim>\<open>undefined\<close> on top.
\<close>

theorem inlineUnsafePutElements_validation_precedes_emission:
  "(argc callInfo = 0 \<or> argc callInfo mod 3 \<noteq> 0 \<longrightarrow>
      inlineUnsafePutElements env callInfo b = Some (InliningStatus_NotInlined, b)) \<and>
   ((\<exists>k. 3 * k < argc callInfo \<and> \<not> group_validates env callInfo (3 * k)) \<longrightarrow>
      inlineUnsafePutElements env callInfo b = Some (InliningStatus_NotInlined, b)) \<and>
   (0 < argc callInfo \<and> argc callInfo mod 3 = 0 \<and> \<not> constructing callInfo \<and>
    (\<forall>k. 3 * k < argc callInfo \<longrightarrow> group_validates env callInfo (3 * k)) \<and>
    (\<forall>k. 3 * k < argc callInfo \<longrightarrow> dense_group_has_types env callInfo (3 * k)) \<longrightarrow>
      (\<exists>st stores b'.
         inlineUnsafePutElements env callInfo b = Some (st, b') \<and>
         (st = InliningStatus_Inlined \<or> st = InliningStatus_Error) \<and>
         instructions b' = instructions b @ MConstant UndefinedValue # stores \<and>
         stack b' = MConstant UndefinedValue # stack b \<and>
         events b' =
           events b @ Added (MConstant UndefinedValue) # Pushed (MConstant UndefinedValue)
             # map Added stores))"
proof (intro conjI impI)
  assume "argc callInfo = 0 \<or> argc callInfo mod 3 \<noteq> 0"
  then show "inlineUnsafePutElements env callInfo b = Some (InliningStatus_NotInlined, b)"
    by (auto simp: inlineUnsafePutElements_def)
next
  assume "\<exists>k. 3 * k < argc callInfo \<and> \<not> group_validates env callInfo (3 * k)"
  then have "\<not> inlineUnsafePutElements_validate env callInfo 0"
    using validate_iff [of 0 env callInfo] by auto
  then show "inlineUnsafePutElements env callInfo b = Some (InliningStatus_NotInlined, b)"
    by (simp add: inlineUnsafePutElements_def)
next
  let ?u = "MConstant UndefinedValue"
  let ?b = "current_push ?u (current_add ?u (setImplicitlyUsedUnchecked callInfo b))"
  assume h: "0 < argc callInfo \<and> argc callInfo mod 3 = 0 \<and> \<not> constructing callInfo \<and>
    (\<forall>k. 3 * k < argc callInfo \<longrightarrow> group_validates env callInfo (3 * k)) \<and>
    (\<forall>k. 3 * k < argc callInfo \<longrightarrow> dense_group_has_types env callInfo (3 * k))"
  then have v: "inlineUnsafePutElements_validate env callInfo 0"
    using validate_iff [of 0 env callInfo] by auto
  from h have "0 < argc callInfo" "argc callInfo mod 3 = 0" by auto
  then have a: "\<not> argc callInfo < 3" by presburger
  from h have w: "\<forall>k. 0 \<le> 3 * k \<and> 3 * k < argc callInfo \<longrightarrow>
       group_validates env callInfo (3 * k) \<and> dense_group_has_types env callInfo (3 * k)"
    by blast
  from stores_commit [of 0, OF _ w, of ?b] obtain st inss where
    s: "inlineUnsafePutElements_stores env callInfo 0 ?b = Some (st, add_all inss ?b)"
       "st = InliningStatus_Inlined \<or> st = InliningStatus_Error" by auto
  have "inlineUnsafePutElements env callInfo b = Some (st, add_all inss ?b)"
    using h v a s(1) by (simp add: inlineUnsafePutElements_def Let_def)
  with s(2) show "\<exists>st stores b'.
         inlineUnsafePutElements env callInfo b = Some (st, b') \<and>
         (st = InliningStatus_Inlined \<or> st = InliningStatus_Error) \<and>
         instructions b' = instructions b @ MConstant UndefinedValue # stores \<and>
         stack b' = MConstant UndefinedValue # stack b \<and>
         events b' =
           events b @ Added (MConstant UndefinedValue) # Pushed (MConstant UndefinedValue)
             # map Added stores"
    by (intro exI [of _ st] exI [of _ inss] exI [of _ "add_all inss ?b"]) simp
qed

theorem inlineUnsafePutElements_validation_precedes_emission_witness:
  "inlineUnsafePutElements env_dense
     (call (typed_def 1 MIRType_Object)
        [obj_def 2 (array_typeset 5 [Int32Type]), typed_def 3 MIRType_Int32,
         typed_def 4 MIRType_Int32, obj_def 2 (array_typeset 5 [Int32Type])]) b0
     = Some (InliningStatus_NotInlined, b0)
   \<and> inlineUnsafePutElements env0
     (call (typed_def 1 MIRType_Object)
        [obj_def 2 (array_typeset 5 [Int32Type]), typed_def 3 MIRType_Int32,
         typed_def 4 MIRType_Int32]) b0
     = Some (InliningStatus_NotInlined, b0)
   \<and> fst (the (inlineUnsafePutElements env_dense
     (call (typed_def 1 MIRType_Object)
        [obj_def 2 (array_typeset 5 [Int32Type]), typed_def 3 MIRType_Int32,
         typed_def 4 MIRType_Int32]) b0))
       = InliningStatus_Inlined
   \<and> stack (snd (the (inlineUnsafePutElements env_dense
     (call (typed_def 1 MIRType_Object)
        [obj_def 2 (array_typeset 5 [Int32Type]), typed_def 3 MIRType_Int32,
         typed_def 4 MIRType_Int32]) b0)))
       = [MConstant UndefinedValue]
   \<and> events (snd (the (inlineUnsafePutElements env_dense
     (call (typed_def 1 MIRType_Object)
        [obj_def 2 (array_typeset 5 [Int32Type]), typed_def 3 MIRType_Int32,
         typed_def 4 MIRType_Int32]) b0)))
       = [Added (MConstant UndefinedValue), Pushed (MConstant UndefinedValue),
          Added (MStoreElement (obj_def 2 (array_typeset 5 [Int32Type]))
                   (typed_def 3 MIRType_Int32) (typed_def 4 MIRType_Int32))]"
proof -
  let ?a = "obj_def 2 (array_typeset 5 [Int32Type])"
  let ?c4 = "call (typed_def 1 MIRType_Object)
        [?a, typed_def 3 MIRType_Int32, typed_def 4 MIRType_Int32, ?a]"
  let ?c3 = "call (typed_def 1 MIRType_Object)
        [?a, typed_def 3 MIRType_Int32, typed_def 4 MIRType_Int32]"
  note t = inlineUnsafePutElements_validation_precedes_emission
  have g: "group_validates env_dense c base" for c base
    by (simp add: group_validates_def env_dense_def env0_def)
  have ng: "\<not> group_validates env0 ?c3 (3 * 0)"
    by (simp add: group_validates_def env0_def elementAccessIsTypedObjectArrayOfScalarType_def)
  have d: "\<forall>k. 3 * k < argc ?c3 \<longrightarrow> dense_group_has_types env_dense ?c3 (3 * k)"
  proof (intro allI impI)
    fix k :: nat
    assume "3 * k < argc ?c3"
    then have "k = 0" by simp
    then show "dense_group_has_types env_dense ?c3 (3 * k)"
      by (simp add: dense_group_has_types_def)
  qed
  have a: "inlineUnsafePutElements env_dense ?c4 b0 = Some (InliningStatus_NotInlined, b0)"
    using t [of ?c4 env_dense b0, THEN conjunct1] by simp
  have ex: "\<exists>k. 3 * k < argc ?c3 \<and> \<not> group_validates env0 ?c3 (3 * k)"
    using ng by (intro exI [of _ 0]) simp
  have n: "inlineUnsafePutElements env0 ?c3 b0 = Some (InliningStatus_NotInlined, b0)"
    using t [of ?c3 env0 b0, THEN conjunct2, THEN conjunct1] ex by blast
  have h: "0 < argc ?c3 \<and> argc ?c3 mod 3 = 0 \<and> \<not> constructing ?c3 \<and>
    (\<forall>k. 3 * k < argc ?c3 \<longrightarrow> group_validates env_dense ?c3 (3 * k)) \<and>
    (\<forall>k. 3 * k < argc ?c3 \<longrightarrow> dense_group_has_types env_dense ?c3 (3 * k))"
    using g d by simp
  from t [of ?c3 env_dense b0, THEN conjunct2, THEN conjunct2, rule_format, OF h]
  obtain st stores b' where
    r: "inlineUnsafePutElements env_dense ?c3 b0 = Some (st, b')"
      "stack b' = MConstant UndefinedValue # stack b0" by blast
  have s: "stack (snd (the (inlineUnsafePutElements env_dense ?c3 b0))) =
             [MConstant UndefinedValue]"
    using r by (simp add: b0_def)
  have i: "inlineUnsafePutElements env_dense ?c3 b0 =
      Some (InliningStatus_Inlined,
            add_all [MStoreElement ?a (typed_def 3 MIRType_Int32) (typed_def 4 MIRType_Int32)]
              (current_push (MConstant UndefinedValue)
                 (current_add (MConstant UndefinedValue)
                    (setImplicitlyUsedUnchecked ?c3 b0))))"
    by (simp add: inlineUnsafePutElements_def inlineUnsafePutElements_validate.simps
          inlineUnsafePutElements_stores.simps inlineUnsafeSetDenseArrayElement_def
          env_dense_def env0_def Let_def)
  have f: "fst (the (inlineUnsafePutElements env_dense ?c3 b0)) = InliningStatus_Inlined"
    unfolding i by simp
  have e: "events (snd (the (inlineUnsafePutElements env_dense ?c3 b0))) =
       [Added (MConstant UndefinedValue), Pushed (MConstant UndefinedValue),
        Added (MStoreElement ?a (typed_def 3 MIRType_Int32) (typed_def 4 MIRType_Int32))]"
    unfolding i by (simp add: b0_def)
  show ?thesis using a n f s e by blast
qed

subsection \<open>Class predicates\<close>

text \<open>
  C9. When the single object argument of a class-membership predicate has a known class in
  its type set (and the call is not constructing and expects a boolean), \<^verbatim>\<open>inlineHasClass\<close>
  inlines the call by pushing one boolean constant, whether the known class is one of the
  candidate classes; the constant is the only instruction added, so no \<^verbatim>\<open>MHasClass\<close> test.
\<close>

theorem inlineHasClass_known_class:
  assumes "\<not> constructing callInfo" and "argc callInfo = 1"
    and "def_type (getArg callInfo 0) = MIRType_Object"
    and "getInlineReturnType env = MIRType_Boolean"
    and "resultTypeSet (getArg callInfo 0) = Some types"
    and "getKnownClass types = Some k"
  shows "inlineHasClass env callInfo clasp1 clasp2 clasp3 clasp4 b =
           (InliningStatus_Inlined,
            setImplicitlyUsedUnchecked callInfo
              (pushConstant (BooleanValue (Some k \<in> {clasp1, clasp2, clasp3, clasp4})) b))
         \<and> instructions (snd (inlineHasClass env callInfo clasp1 clasp2 clasp3 clasp4 b)) =
             instructions b @ [MConstant (BooleanValue (Some k \<in> {clasp1, clasp2, clasp3, clasp4}))]
         \<and> stack (snd (inlineHasClass env callInfo clasp1 clasp2 clasp3 clasp4 b)) =
             MConstant (BooleanValue (Some k \<in> {clasp1, clasp2, clasp3, clasp4})) # stack b"
  using assms by (simp add: inlineHasClass_def Let_def)

theorem inlineHasClass_known_class_witness:
  "inlineNativeCall (env_returning MIRType_Boolean)
     (call (typed_def 1 MIRType_Object) [obj_def 2 (class_typeset InlineOpaqueTypedObject_class)])
     intrinsic_ObjectIsTypedObject b0 =
   Some (InliningStatus_Inlined,
         setImplicitlyUsedUnchecked
           (call (typed_def 1 MIRType_Object)
              [obj_def 2 (class_typeset InlineOpaqueTypedObject_class)])
           (pushConstant (BooleanValue True) b0))
   \<and> instructions (snd (inlineHasClass (env_returning MIRType_Boolean)
       (call (typed_def 1 MIRType_Object) [obj_def 2 (class_typeset ArrayObject_class)])
       (Some SizedArrayTypeDescr_class) None None None b0)) = [MConstant (BooleanValue False)]"
proof -
  note t = inlineHasClass_known_class
  have a: "inlineHasClass (env_returning MIRType_Boolean)
     (call (typed_def 1 MIRType_Object) [obj_def 2 (class_typeset InlineOpaqueTypedObject_class)])
     (Some OutlineTransparentTypedObject_class) (Some OutlineOpaqueTypedObject_class)
     (Some InlineTransparentTypedObject_class) (Some InlineOpaqueTypedObject_class) b0 =
     (InliningStatus_Inlined,
         setImplicitlyUsedUnchecked
           (call (typed_def 1 MIRType_Object)
              [obj_def 2 (class_typeset InlineOpaqueTypedObject_class)])
           (pushConstant (BooleanValue True) b0))"
    using t [where callInfo = "call (typed_def 1 MIRType_Object)
                  [obj_def 2 (class_typeset InlineOpaqueTypedObject_class)]"
               and env = "env_returning MIRType_Boolean"
               and types = "class_typeset InlineOpaqueTypedObject_class"
               and k = InlineOpaqueTypedObject_class and b = b0
               and ?clasp1.0 = "Some OutlineTransparentTypedObject_class"
               and ?clasp2.0 = "Some OutlineOpaqueTypedObject_class"
               and ?clasp3.0 = "Some InlineTransparentTypedObject_class"
               and ?clasp4.0 = "Some InlineOpaqueTypedObject_class"]
    by (simp add: class_typeset_def)
  have b: "instructions (snd (inlineHasClass (env_returning MIRType_Boolean)
       (call (typed_def 1 MIRType_Object) [obj_def 2 (class_typeset ArrayObject_class)])
       (Some SizedArrayTypeDescr_class) None None None b0)) =
       instructions b0 @ [MConstant (BooleanValue False)]"
    using t [where callInfo = "call (typed_def 1 MIRType_Object)
                  [obj_def 2 (class_typeset ArrayObject_class)]"
               and env = "env_returning MIRType_Boolean"
               and types = "class_typeset ArrayObject_class"
               and k = ArrayObject_class and b = b0
               and ?clasp1.0 = "Some SizedArrayTypeDescr_class"
               and ?clasp2.0 = None and ?clasp3.0 = None and ?clasp4.0 = None]
    by (simp add: class_typeset_def)
  show ?thesis using a b by (simp add: inlineNativeCall_def b0_def)
qed

subsection \<open>Atomics natives\<close>

lemma atomicsMeetsPreconditions_Some:
  "atomicsMeetsPreconditions env callInfo = Some t \<Longrightarrow>
     \<exists>ts. resultTypeSet (getArg callInfo 0) = Some ts \<and> getSharedTypedArrayType ts = t \<and>
          atomics_allow_list t (getInlineReturnType env)"
  by (auto simp: atomicsMeetsPreconditions_def atomics_allow_list_def Let_def
           split: if_splits option.splits Scalar_Type.splits)

lemma atomicsMeetsPreconditions_None:
  "(\<forall>ts. resultTypeSet (getArg callInfo 0) = Some ts \<longrightarrow>
         \<not> atomics_allow_list (getSharedTypedArrayType ts) (getInlineReturnType env)) \<Longrightarrow>
   atomicsMeetsPreconditions env callInfo = None"
  using atomicsMeetsPreconditions_Some [of env callInfo]
  by (cases "atomicsMeetsPreconditions env callInfo") auto

text \<open>
  C4. Each of the four atomics specializers (load, store, compareExchange, fetch-binop)
  inlines only when the type set of the receiver gives a shared typed-array element type on the
  allow-list with the matching inline return type; when the element type is off the list or
  the return type does not match, each returns \<^verbatim>\<open>InliningStatus_NotInlined\<close> with the
  builder state unchanged.
\<close>

theorem atomics_specialized_only_on_allow_list:
  "((fst (inlineAtomicsLoad env callInfo b) = InliningStatus_Inlined \<or>
     fst (inlineAtomicsStore env callInfo b) = InliningStatus_Inlined \<or>
     fst (inlineAtomicsCompareExchange env callInfo b) = InliningStatus_Inlined \<or>
     (\<exists>b'. inlineAtomicsBinop env callInfo native b = Some (InliningStatus_Inlined, b'))) \<longrightarrow>
    (\<exists>ts. resultTypeSet (getArg callInfo 0) = Some ts \<and>
          atomics_allow_list (getSharedTypedArrayType ts) (getInlineReturnType env))) \<and>
   ((\<forall>ts. resultTypeSet (getArg callInfo 0) = Some ts \<longrightarrow>
          \<not> atomics_allow_list (getSharedTypedArrayType ts) (getInlineReturnType env)) \<longrightarrow>
    inlineAtomicsLoad env callInfo b = (InliningStatus_NotInlined, b) \<and>
    inlineAtomicsStore env callInfo b = (InliningStatus_NotInlined, b) \<and>
    inlineAtomicsCompareExchange env callInfo b = (InliningStatus_NotInlined, b) \<and>
    inlineAtomicsBinop env callInfo native b = Some (InliningStatus_NotInlined, b))"
proof (intro conjI impI)
  assume "fst (inlineAtomicsLoad env callInfo b) = InliningStatus_Inlined \<or>
     fst (inlineAtomicsStore env callInfo b) = InliningStatus_Inlined \<or>
     fst (inlineAtomicsCompareExchange env callInfo b) = InliningStatus_Inlined \<or>
     (\<exists>b'. inlineAtomicsBinop env callInfo native b = Some (InliningStatus_Inlined, b'))"
  then obtain t where "atomicsMeetsPreconditions env callInfo = Some t"
    by (cases "atomicsMeetsPreconditions env callInfo")
       (auto simp: inlineAtomicsLoad_def inlineAtomicsStore_def inlineAtomicsCompareExchange_def
          inlineAtomicsBinop_def split: if_splits)
  then show "\<exists>ts. resultTypeSet (getArg callInfo 0) = Some ts \<and>
          atomics_allow_list (getSharedTypedArrayType ts) (getInlineReturnType env)"
    using atomicsMeetsPreconditions_Some by blast
next
  assume h: "\<forall>ts. resultTypeSet (getArg callInfo 0) = Some ts \<longrightarrow>
          \<not> atomics_allow_list (getSharedTypedArrayType ts) (getInlineReturnType env)"
  have n: "atomicsMeetsPreconditions env callInfo = None"
    using atomicsMeetsPreconditions_None [OF h] .
  show "inlineAtomicsLoad env callInfo b = (InliningStatus_NotInlined, b)"
    by (simp add: inlineAtomicsLoad_def n)
  show "inlineAtomicsStore env callInfo b = (InliningStatus_NotInlined, b)"
    by (simp add: inlineAtomicsStore_def n)
  show "inlineAtomicsCompareExchange env callInfo b = (InliningStatus_NotInlined, b)"
    by (simp add: inlineAtomicsCompareExchange_def n)
  show "inlineAtomicsBinop env callInfo native b = Some (InliningStatus_NotInlined, b)"
    by (simp add: inlineAtomicsBinop_def n)
qed

theorem atomics_specialized_only_on_allow_list_witness:
  "fst (inlineAtomicsLoad (env_returning MIRType_Int32)
          (call (typed_def 1 MIRType_Object)
             [obj_def 2 (shared_array_typeset Scalar_Int8), typed_def 3 MIRType_Int32]) b0)
     = InliningStatus_Inlined
   \<and> atomics_allow_list Scalar_Int8 MIRType_Int32
   \<and> inlineAtomicsCompareExchange (env_returning MIRType_Double)
          (call (typed_def 1 MIRType_Object)
             [obj_def 2 (shared_array_typeset Scalar_Int8), typed_def 3 MIRType_Int32,
              typed_def 4 MIRType_Int32, typed_def 5 MIRType_Int32]) b0
     = (InliningStatus_NotInlined, b0)
   \<and> inlineAtomicsLoad (env_returning MIRType_Int32)
          (call (typed_def 1 MIRType_Object)
             [obj_def 2 (shared_array_typeset Scalar_Uint8Clamped), typed_def 3 MIRType_Int32]) b0
     = (InliningStatus_NotInlined, b0)"
proof -
  note t = atomics_specialized_only_on_allow_list
  let ?l = "call (typed_def 1 MIRType_Object)
             [obj_def 2 (shared_array_typeset Scalar_Int8), typed_def 3 MIRType_Int32]"
  let ?c = "call (typed_def 1 MIRType_Object)
             [obj_def 2 (shared_array_typeset Scalar_Int8), typed_def 3 MIRType_Int32,
              typed_def 4 MIRType_Int32, typed_def 5 MIRType_Int32]"
  let ?d = "call (typed_def 1 MIRType_Object)
             [obj_def 2 (shared_array_typeset Scalar_Uint8Clamped), typed_def 3 MIRType_Int32]"
  have i: "fst (inlineAtomicsLoad (env_returning MIRType_Int32) ?l b0) = InliningStatus_Inlined"
    by (simp add: inlineAtomicsLoad_def atomicsMeetsPreconditions_def atomicsCheckBounds_def
          Let_def split: prod.splits)
  have "\<exists>ts. resultTypeSet (getArg ?l 0) = Some ts \<and>
          atomics_allow_list (getSharedTypedArrayType ts) (getInlineReturnType (env_returning MIRType_Int32))"
    using t [of "env_returning MIRType_Int32" ?l b0 atomics_add, THEN conjunct1] i by blast
  then have a: "atomics_allow_list Scalar_Int8 MIRType_Int32" by auto
  have hc: "\<forall>ts. resultTypeSet (getArg ?c 0) = Some ts \<longrightarrow>
      \<not> atomics_allow_list (getSharedTypedArrayType ts) (getInlineReturnType (env_returning MIRType_Double))"
    by (simp add: atomics_allow_list_def)
  have c: "inlineAtomicsCompareExchange (env_returning MIRType_Double) ?c b0
     = (InliningStatus_NotInlined, b0)"
    using t [of "env_returning MIRType_Double" ?c b0 atomics_add, THEN conjunct2] hc by blast
  have hd: "\<forall>ts. resultTypeSet (getArg ?d 0) = Some ts \<longrightarrow>
      \<not> atomics_allow_list (getSharedTypedArrayType ts) (getInlineReturnType (env_returning MIRType_Int32))"
    by (simp add: atomics_allow_list_def)
  have d: "inlineAtomicsLoad (env_returning MIRType_Int32) ?d b0 = (InliningStatus_NotInlined, b0)"
    using t [of "env_returning MIRType_Int32" ?d b0 atomics_add, THEN conjunct2] hd by blast
  show ?thesis using i a c d by blast
qed

end
